theory Spec2Isabelle
  imports Complex_Main
begin

section \<open>Exact-value arithmetic of the stored procedures\<close>

text \<open>
  The schema and its stored procedures are MySQL. \<open>ROUND\<close> on an exact value rounds a
  half away from zero. Exact-value (DECIMAL) quantities are modelled as reals; the
  intermediate precision MySQL keeps inside one expression, range errors of a column
  type and division by zero (which yields NULL) are outside the model. The DOUBLE value
  of \<open>POW(10, x)\<close> is idealised to the real power.
\<close>

definition mysql_round :: "real \<Rightarrow> int" where
  "mysql_round x = (if x < 0 then - \<lfloor>- x + 1 / 2\<rfloor> else \<lfloor>x + 1 / 2\<rfloor>)"

definition dec_round :: "nat \<Rightarrow> real \<Rightarrow> real" where
  "dec_round k x = real_of_int (mysql_round (x * 10 ^ k)) / 10 ^ k"

section \<open>Rating computation of \<open>sp_update_elo\<close>\<close>

text \<open>
  \<open>expected1\<close> and \<open>expected2\<close> are declared \<open>DECIMAL(5,4)\<close>, so the logistic value is
  stored with four decimals before it is used.
\<close>

definition k_factor :: int where
  "k_factor = 32"

definition expected_score :: "int \<Rightarrow> int \<Rightarrow> real" where
  "expected_score own_elo other_elo =
     dec_round 4 (1 / (1 + 10 powr (real_of_int (other_elo - own_elo) / 400)))"

text \<open>
  The actual scores: \<open>p_winner_id = p_player1_id\<close> first, then
  \<open>p_winner_id = p_player2_id\<close>, otherwise a draw. A NULL winner compares equal to
  nothing, so it is a draw.
\<close>

definition actual_scores :: "nat \<Rightarrow> nat \<Rightarrow> nat option \<Rightarrow> real \<times> real" where
  "actual_scores p_player1_id p_player2_id p_winner_id =
     (if p_winner_id = Some p_player1_id then (1, 0)
      else if p_winner_id = Some p_player2_id then (0, 1)
      else (1 / 2, 1 / 2))"

definition elo_change :: "real \<Rightarrow> real \<Rightarrow> int" where
  "elo_change actual expected = mysql_round (real_of_int k_factor * (actual - expected))"

definition elo_changes :: "int \<Rightarrow> int \<Rightarrow> real \<times> real \<Rightarrow> int \<times> int" where
  "elo_changes player1_elo player2_elo actual =
     (elo_change (fst actual) (expected_score player1_elo player2_elo),
      elo_change (snd actual) (expected_score player2_elo player1_elo))"

definition clamp_elo :: "int \<Rightarrow> int" where
  "clamp_elo r = max 800 (min 3000 r)"


section \<open>Tables\<close>

text \<open>
  One record per table of the schema, with the columns that the modelled operations
  read or write. Integer columns are unbounded integers. A timestamp column is kept as
  the flag whether it has been stamped. \<open>elo_rating\<close> is a nullable column, and
  \<open>sp_update_elo\<close> can store NULL in it, so it is an \<open>int option\<close>.
\<close>

record user_row =
  level :: int
  experience_points :: int

record user_stats =
  total_games :: int
  total_wins :: int
  total_losses :: int
  win_rate :: real
  average_completion_time :: int
  best_completion_time :: int
  average_moves :: real
  best_move_count :: int
  elo_rating :: "int option"
  current_win_streak :: int
  current_loss_streak :: int
  best_win_streak :: int
  speed_mode_wins :: int
  fewest_moves_wins :: int
  multiplayer_wins :: int
  practice_games :: int
  games_3x3 :: int
  games_4x4 :: int
  games_6x6 :: int
  games_8x8 :: int
  games_10x10 :: int

record game_session =
  player1_id :: nat
  player2_id :: "nat option"
  winner_id :: "nat option"
  board_size :: nat
  game_mode :: string
  puzzle_config_id :: "nat option"
  status :: string
  completion_time :: "int option"
  move_count :: int
  perfect_game :: bool
  speed_bonus :: bool
  completed_at :: bool

record game_move =
  gm_session_id :: nat
  gm_user_id :: nat
  move_number :: int
  tile_position :: int
  empty_position :: int
  direction :: string
  board_state :: "int list"
  time_elapsed :: int

record leaderboard_row =
  lb_user_id :: nat
  category :: string
  score :: int
  lb_elo_rating :: "int option"
  season :: string
  rank_position :: int

record achievement_progress =
  current_progress :: int
  required_progress :: int
  is_completed :: bool
  unlocked_at :: bool

text \<open>
  The store. \<open>users\<close>, \<open>user_stats\<close> and \<open>game_sessions\<close> are keyed by their id
  columns; \<open>next_session_id\<close> is the AUTO_INCREMENT counter of \<open>game_sessions\<close>.
  \<open>game_moves\<close> and \<open>leaderboards\<close> are the rows in insertion order.
  \<open>user_achievements\<close> is keyed by the user and the achievement key that the join with
  \<open>achievements\<close> selects.
\<close>

record database =
  users :: "nat \<rightharpoonup> user_row"
  user_stats_tbl :: "nat \<rightharpoonup> user_stats"
  game_sessions :: "nat \<rightharpoonup> game_session"
  next_session_id :: nat
  game_moves :: "game_move list"
  leaderboards :: "leaderboard_row list"
  user_achievements :: "nat \<times> string \<rightharpoonup> achievement_progress"

text \<open>
  A new user: the row of \<open>createUser\<close> and the row that the trigger
  \<open>tr_create_user_stats\<close> inserts, both with the column defaults.
\<close>

definition default_user_row :: user_row where
  "default_user_row = \<lparr>level = 1, experience_points = 0\<rparr>"

definition default_user_stats :: user_stats where
  "default_user_stats =
     \<lparr>total_games = 0, total_wins = 0, total_losses = 0, win_rate = 0,
      average_completion_time = 0, best_completion_time = 0, average_moves = 0,
      best_move_count = 0, elo_rating = Some 1000, current_win_streak = 0,
      current_loss_streak = 0, best_win_streak = 0, speed_mode_wins = 0,
      fewest_moves_wins = 0, multiplayer_wins = 0, practice_games = 0, games_3x3 = 0,
      games_4x4 = 0, games_6x6 = 0, games_8x8 = 0, games_10x10 = 0\<rparr>"

definition empty_database :: database where
  "empty_database =
     \<lparr>users = Map.empty, user_stats_tbl = Map.empty, game_sessions = Map.empty,
      next_session_id = 1, game_moves = [], leaderboards = [],
      user_achievements = Map.empty\<rparr>"

definition new_user :: "nat \<Rightarrow> database \<Rightarrow> database" where
  "new_user userId db =
     db\<lparr>users := (users db)(userId \<mapsto> default_user_row),
        user_stats_tbl := (user_stats_tbl db)(userId \<mapsto> default_user_stats)\<rparr>"

section \<open>\<open>sp_update_user_stats\<close>\<close>

text \<open>
  The first UPDATE of the procedure has eleven assignments in one SET list. MySQL
  evaluates the assignments of a single-table UPDATE from left to right, and an
  expression that names a column assigned earlier in the list reads the new value.
  Each \<open>let\<close> below is the value of one assignment, in the order of the source; a
  primed name is the new value of the column, and a column read from \<open>r\<close> has not been
  assigned yet at that point of the list.
\<close>

definition update_basic_stats :: "bool \<Rightarrow> int \<Rightarrow> int \<Rightarrow> user_stats \<Rightarrow> user_stats" where
  "update_basic_stats p_is_win p_completion_time p_move_count r =
     (let total_games' = total_games r + 1;
          total_wins' = total_wins r + (if p_is_win then 1 else 0);
          total_losses' = total_losses r + (if p_is_win then 0 else 1);
          win_rate' = dec_round 2
             (real_of_int (total_wins' + (if p_is_win then 1 else 0)) * 100
                / real_of_int (total_games' + 1));
          average_completion_time' = mysql_round
             (real_of_int (average_completion_time r * total_games' + p_completion_time)
                / real_of_int (total_games' + 1));
          best_completion_time' =
             (if p_completion_time > 0
                 \<and> (best_completion_time r = 0 \<or> p_completion_time < best_completion_time r)
              then p_completion_time else best_completion_time r);
          average_moves' = dec_round 2
             ((average_moves r * real_of_int total_games' + real_of_int p_move_count)
                / real_of_int (total_games' + 1));
          best_move_count' =
             (if best_move_count r = 0 \<or> p_move_count < best_move_count r
              then p_move_count else best_move_count r);
          current_win_streak' = (if p_is_win then current_win_streak r + 1 else 0);
          current_loss_streak' = (if p_is_win then 0 else current_loss_streak r + 1);
          best_win_streak' = max (best_win_streak r)
             (if p_is_win then current_win_streak' + 1 else current_win_streak')
      in r\<lparr>total_games := total_games',
           total_wins := total_wins',
           total_losses := total_losses',
           win_rate := win_rate',
           average_completion_time := average_completion_time',
           best_completion_time := best_completion_time',
           average_moves := average_moves',
           best_move_count := best_move_count',
           current_win_streak := current_win_streak',
           current_loss_streak := current_loss_streak',
           best_win_streak := best_win_streak'\<rparr>)"

definition update_mode_stats :: "string \<Rightarrow> bool \<Rightarrow> user_stats \<Rightarrow> user_stats" where
  "update_mode_stats p_game_mode p_is_win r =
     (if p_game_mode = ''speed''
        then r\<lparr>speed_mode_wins := speed_mode_wins r + (if p_is_win then 1 else 0)\<rparr>
      else if p_game_mode = ''fewest_moves''
        then r\<lparr>fewest_moves_wins := fewest_moves_wins r + (if p_is_win then 1 else 0)\<rparr>
      else if p_game_mode = ''multiplayer''
        then r\<lparr>multiplayer_wins := multiplayer_wins r + (if p_is_win then 1 else 0)\<rparr>
      else if p_game_mode = ''practice''
        then r\<lparr>practice_games := practice_games r + 1\<rparr>
      else r)"

definition update_board_size_stats :: "nat \<Rightarrow> user_stats \<Rightarrow> user_stats" where
  "update_board_size_stats p_board_size r =
     r\<lparr>games_3x3 := games_3x3 r + (if p_board_size = 3 then 1 else 0),
       games_4x4 := games_4x4 r + (if p_board_size = 4 then 1 else 0),
       games_6x6 := games_6x6 r + (if p_board_size = 6 then 1 else 0),
       games_8x8 := games_8x8 r + (if p_board_size = 8 then 1 else 0),
       games_10x10 := games_10x10 r + (if p_board_size = 10 then 1 else 0)\<rparr>"

text \<open>
  The three UPDATE statements of the procedure on the row \<open>WHERE user_id = p_user_id\<close>;
  with no such row each of them changes nothing.
\<close>

definition sp_update_user_stats_row ::
  "bool \<Rightarrow> int \<Rightarrow> int \<Rightarrow> nat \<Rightarrow> string \<Rightarrow> user_stats \<Rightarrow> user_stats" where
  "sp_update_user_stats_row p_is_win p_completion_time p_move_count p_board_size p_game_mode r =
     update_board_size_stats p_board_size
       (update_mode_stats p_game_mode p_is_win
          (update_basic_stats p_is_win p_completion_time p_move_count r))"

definition sp_update_user_stats ::
  "nat \<Rightarrow> bool \<Rightarrow> int \<Rightarrow> int \<Rightarrow> nat \<Rightarrow> string \<Rightarrow> database \<Rightarrow> database" where
  "sp_update_user_stats p_user_id p_is_win p_completion_time p_move_count p_board_size p_game_mode db =
     (case user_stats_tbl db p_user_id of
        None \<Rightarrow> db
      | Some r \<Rightarrow> db\<lparr>user_stats_tbl := (user_stats_tbl db)(p_user_id \<mapsto>
          sp_update_user_stats_row p_is_win p_completion_time p_move_count
            p_board_size p_game_mode r)\<rparr>)"

section \<open>\<open>sp_update_elo\<close> on the store\<close>

text \<open>
  \<open>SELECT elo_rating INTO\<close> leaves the variable NULL when there is no row. NULL
  propagates through the arithmetic, \<open>LEAST\<close> and \<open>GREATEST\<close>, so the changes are NULL
  as soon as one rating is, and the UPDATE then stores NULL. The two UPDATE statements
  run one after the other.
\<close>

definition read_elo :: "database \<Rightarrow> nat \<Rightarrow> int option" where
  "read_elo db uid = (case user_stats_tbl db uid of None \<Rightarrow> None | Some r \<Rightarrow> elo_rating r)"

definition write_elo :: "nat \<Rightarrow> int option \<Rightarrow> database \<Rightarrow> database" where
  "write_elo uid change db =
     (case user_stats_tbl db uid of
        None \<Rightarrow> db
      | Some r \<Rightarrow> db\<lparr>user_stats_tbl := (user_stats_tbl db)(uid \<mapsto>
          r\<lparr>elo_rating := (case (elo_rating r, change) of
                               (Some e, Some c) \<Rightarrow> Some (clamp_elo (e + c))
                             | _ \<Rightarrow> None)\<rparr>)\<rparr>)"

definition sp_update_elo ::
  "nat \<Rightarrow> nat \<Rightarrow> nat option \<Rightarrow> database \<Rightarrow> (int \<times> int) option \<times> database" where
  "sp_update_elo p_player1_id p_player2_id p_winner_id db =
     (let changes =
            (case (read_elo db p_player1_id, read_elo db p_player2_id) of
               (Some player1_elo, Some player2_elo) \<Rightarrow>
                 Some (elo_changes player1_elo player2_elo
                         (actual_scores p_player1_id p_player2_id p_winner_id))
             | _ \<Rightarrow> None);
          db1 = write_elo p_player1_id (map_option fst changes) db;
          db2 = write_elo p_player2_id (map_option snd changes) db1
      in (changes, db2))"


section \<open>Leaderboard\<close>

text \<open>\<open>String.prototype.includes\<close>: the argument occurs as a contiguous part.\<close>

fun starts_with :: "string \<Rightarrow> string \<Rightarrow> bool" where
  "starts_with str [] = True"
| "starts_with [] (c # cs) = False"
| "starts_with (d # ds) (c # cs) = (d = c \<and> starts_with ds cs)"

fun includes_str :: "string \<Rightarrow> string \<Rightarrow> bool" where
  "includes_str [] sub = (sub = [])"
| "includes_str (d # ds) sub = (starts_with (d # ds) sub \<or> includes_str ds sub)"

definition is_entry :: "nat \<Rightarrow> string \<Rightarrow> string \<Rightarrow> leaderboard_row \<Rightarrow> bool" where
  "is_entry userId cat seas r = (lb_user_id r = userId \<and> category r = cat \<and> season r = seas)"

definition in_partition :: "string \<Rightarrow> string \<Rightarrow> leaderboard_row \<Rightarrow> bool" where
  "in_partition cat seas r = (category r = cat \<and> season r = seas)"

text \<open>
  The UPDATE statement of \<open>recalculateLeaderboardRanks\<close> visits the rows of the
  partition \<open>ORDER BY score\<close>, ascending or descending, and gives each the next value
  of \<open>@rank\<close>, which the statement \<open>SET @rank = 0\<close> in front of it sets to 0. A row is
  identified by its position in the table. MySQL leaves the order of rows with equal
  scores open; the model takes them in table order.
\<close>

fun assign_ranks :: "nat list \<Rightarrow> int \<Rightarrow> leaderboard_row list \<Rightarrow> leaderboard_row list" where
  "assign_ranks [] rank tbl = tbl"
| "assign_ranks (i # is) rank tbl =
     assign_ranks is (rank + 1) (tbl[i := (tbl ! i)\<lparr>rank_position := rank + 1\<rparr>])"

definition ascending :: "string \<Rightarrow> bool" where
  "ascending cat = (includes_str cat ''speed'' \<or> includes_str cat ''moves'')"

definition partition_indices :: "string \<Rightarrow> string \<Rightarrow> leaderboard_row list \<Rightarrow> nat list" where
  "partition_indices cat seas tbl = filter (\<lambda>i. in_partition cat seas (tbl ! i)) [0..<length tbl]"

definition order_by_score :: "string \<Rightarrow> leaderboard_row list \<Rightarrow> nat list \<Rightarrow> nat list" where
  "order_by_score cat tbl idxs =
     (if ascending cat then sort_key (\<lambda>i. score (tbl ! i)) idxs
      else sort_key (\<lambda>i. - score (tbl ! i)) idxs)"

definition set_rank_zero :: "leaderboard_row list \<Rightarrow> leaderboard_row list" where
  "set_rank_zero tbl = tbl"

definition update_ranks ::
  "string \<Rightarrow> string \<Rightarrow> leaderboard_row list \<Rightarrow> leaderboard_row list" where
  "update_ranks cat seas tbl =
     assign_ranks (order_by_score cat tbl (partition_indices cat seas tbl)) 0 tbl"

text \<open>
  \<open>pool.execute\<close> sends its string to the server as a prepared statement. A prepared
  statement holds one statement, and the pool is created without
  \<open>multipleStatements\<close>: a string of several statements is refused with a syntax
  error, none of them runs, and the call rejects. A statement is given by what it does
  to the table; \<open>None\<close> is the rejected call.
\<close>

definition pool_execute :: "('t \<Rightarrow> 't) list \<Rightarrow> 't \<Rightarrow> 't option" where
  "pool_execute statements tbl =
     (case statements of [stmt] \<Rightarrow> Some (stmt tbl) | _ \<Rightarrow> None)"

text \<open>
  \<open>recalculateLeaderboardRanks\<close> passes one string with the two statements
  \<open>SET @rank = 0\<close> and the UPDATE to \<open>pool.execute\<close>.
\<close>

definition recalculateLeaderboardRanks ::
  "string \<Rightarrow> string \<Rightarrow> leaderboard_row list \<Rightarrow> leaderboard_row list option" where
  "recalculateLeaderboardRanks cat seas tbl =
     pool_execute [set_rank_zero, update_ranks cat seas] tbl"

text \<open>
  \<open>updateLeaderboardEntry\<close>: \<open>existing[0]\<close> is the first row the SELECT returns; the
  UPDATE writes every row that matches its WHERE clause; the INSERT appends a row with
  \<open>rank_position\<close> 0. Both branches of the conditional that computes \<open>shouldUpdate\<close>
  are kept as the source has them. The score is a completion time in whole seconds or a
  move count. The \<open>user_id\<close> of the row is a foreign key; the caller passes the id of a
  user whose row it has just read. The function awaits the recalculation last: when
  that call rejects, the function rejects too, and the row it has written stays. The
  outcome of the call carries the table it leaves behind.
\<close>

datatype 'a outcome = Resolved 'a | Rejected 'a

fun table_of :: "'a outcome \<Rightarrow> 'a" where
  "table_of (Resolved tbl) = tbl"
| "table_of (Rejected tbl) = tbl"

definition shouldUpdate :: "string \<Rightarrow> int \<Rightarrow> leaderboard_row \<Rightarrow> bool" where
  "shouldUpdate cat new_score existing =
     (if includes_str cat ''speed'' then new_score < score existing
      else new_score < score existing)"

definition upsert_entry ::
  "nat \<Rightarrow> string \<Rightarrow> int \<Rightarrow> int option \<Rightarrow> string \<Rightarrow> leaderboard_row list \<Rightarrow> leaderboard_row list" where
  "upsert_entry userId cat new_score eloRating seas tbl =
     (case filter (is_entry userId cat seas) tbl of
        existing # _ \<Rightarrow>
          if shouldUpdate cat new_score existing
          then map (\<lambda>r. if is_entry userId cat seas r
                         then r\<lparr>score := new_score, lb_elo_rating := eloRating\<rparr> else r) tbl
          else tbl
      | [] \<Rightarrow> tbl @ [\<lparr>lb_user_id = userId, category = cat, score = new_score,
                       lb_elo_rating = eloRating, season = seas, rank_position = 0\<rparr>])"

definition updateLeaderboardEntry ::
  "nat \<Rightarrow> string \<Rightarrow> int \<Rightarrow> int option \<Rightarrow> string \<Rightarrow> leaderboard_row list
     \<Rightarrow> leaderboard_row list outcome" where
  "updateLeaderboardEntry userId cat new_score eloRating seas tbl =
     (let tbl1 = upsert_entry userId cat new_score eloRating seas tbl
      in case recalculateLeaderboardRanks cat seas tbl1 of
           None \<Rightarrow> Rejected tbl1
         | Some tbl2 \<Rightarrow> Resolved tbl2)"

text \<open>
  Rank consistency of one partition: the ranks are exactly 1 to the number of distinct
  users, no rank is shared, and a row ranked before another has a score at least as good
  under the ordering of the category.
\<close>

definition partition_rows :: "string \<Rightarrow> string \<Rightarrow> leaderboard_row list \<Rightarrow> leaderboard_row list" where
  "partition_rows cat seas tbl = filter (in_partition cat seas) tbl"

definition in_rank_order :: "string \<Rightarrow> int \<Rightarrow> int \<Rightarrow> bool" where
  "in_rank_order cat a b = (if ascending cat then a \<le> b else b \<le> a)"

definition rank_consistent :: "string \<Rightarrow> string \<Rightarrow> leaderboard_row list \<Rightarrow> bool" where
  "rank_consistent cat seas tbl =
     (let rows = partition_rows cat seas tbl
      in set (map rank_position rows) = {1 .. int (card (lb_user_id ` set rows))}
         \<and> distinct (map rank_position rows)
         \<and> length rows = card (lb_user_id ` set rows)
         \<and> (\<forall>a \<in> set rows. \<forall>b \<in> set rows.
               rank_position a < rank_position b \<longrightarrow> in_rank_order cat (score a) (score b)))"


section \<open>Database operations on sessions, moves, experience and achievements\<close>

text \<open>
  A foreign key of \<open>game_sessions\<close> or \<open>game_moves\<close> that names no row makes the
  statement fail, and the JavaScript call throws: such a call returns \<open>None\<close> and writes
  nothing. \<open>puzzle_configs\<close> is not modelled.
\<close>

definition getUserStats :: "database \<Rightarrow> nat \<Rightarrow> user_stats option" where
  "getUserStats db userId = user_stats_tbl db userId"

definition getGameSession :: "database \<Rightarrow> nat \<Rightarrow> game_session option" where
  "getGameSession db sessionId = game_sessions db sessionId"

definition createGameSession ::
  "nat \<Rightarrow> nat option \<Rightarrow> nat \<Rightarrow> string \<Rightarrow> nat option \<Rightarrow> database \<Rightarrow> (nat \<times> database) option" where
  "createGameSession player1Id player2Id boardSize gameMode puzzleConfigId db =
     (if users db player1Id = None
         \<or> (case player2Id of None \<Rightarrow> False | Some p2 \<Rightarrow> users db p2 = None)
      then None
      else let insertId = next_session_id db
           in Some (insertId,
                db\<lparr>game_sessions := (game_sessions db)(insertId \<mapsto>
                      \<lparr>player1_id = player1Id, player2_id = player2Id, winner_id = None,
                       board_size = boardSize, game_mode = gameMode,
                       puzzle_config_id = puzzleConfigId, status = ''in_progress'',
                       completion_time = None, move_count = 0, perfect_game = False,
                       speed_bonus = False, completed_at = False\<rparr>),
                    next_session_id := insertId + 1\<rparr>))"

text \<open>
  \<open>updateGameSession\<close> takes an object of updates; a key that is absent is \<open>None\<close>
  here. \<open>completed_at\<close> is stamped when the new status is \<open>completed\<close>.
\<close>

record session_updates =
  upd_status :: "string option"
  upd_winner_id :: "nat option option"
  upd_completion_time :: "int option"
  upd_move_count :: "int option"
  upd_perfect_game :: "bool option"
  upd_speed_bonus :: "bool option"

definition apply_session_updates :: "session_updates \<Rightarrow> game_session \<Rightarrow> game_session" where
  "apply_session_updates u s =
     s\<lparr>status := (case upd_status u of None \<Rightarrow> status s | Some v \<Rightarrow> v),
       winner_id := (case upd_winner_id u of None \<Rightarrow> winner_id s | Some v \<Rightarrow> v),
       completion_time := (case upd_completion_time u of None \<Rightarrow> completion_time s | Some v \<Rightarrow> Some v),
       move_count := (case upd_move_count u of None \<Rightarrow> move_count s | Some v \<Rightarrow> v),
       perfect_game := (case upd_perfect_game u of None \<Rightarrow> perfect_game s | Some v \<Rightarrow> v),
       speed_bonus := (case upd_speed_bonus u of None \<Rightarrow> speed_bonus s | Some v \<Rightarrow> v),
       completed_at := (if upd_status u = Some ''completed'' then True else completed_at s)\<rparr>"

definition winner_exists :: "database \<Rightarrow> session_updates \<Rightarrow> bool" where
  "winner_exists db u =
     (case upd_winner_id u of Some (Some w) \<Rightarrow> users db w \<noteq> None | _ \<Rightarrow> True)"

definition updateGameSession :: "nat \<Rightarrow> session_updates \<Rightarrow> database \<Rightarrow> database option" where
  "updateGameSession sessionId u db =
     (case game_sessions db sessionId of
        None \<Rightarrow> Some db
      | Some s \<Rightarrow>
          if winner_exists db u
          then Some (db\<lparr>game_sessions := (game_sessions db)(sessionId \<mapsto> apply_session_updates u s)\<rparr>)
          else None)"

record move_data =
  moveNumber :: int
  tilePosition :: int
  emptyPosition :: int
  md_direction :: string
  boardState :: "int list"
  timeElapsed :: int

definition move_row :: "nat \<Rightarrow> nat \<Rightarrow> move_data \<Rightarrow> game_move" where
  "move_row sessionId userId m =
     \<lparr>gm_session_id = sessionId, gm_user_id = userId, move_number = moveNumber m,
      tile_position = tilePosition m, empty_position = emptyPosition m,
      direction = md_direction m, board_state = boardState m,
      time_elapsed = timeElapsed m\<rparr>"

definition recordMove :: "nat \<Rightarrow> nat \<Rightarrow> move_data \<Rightarrow> database \<Rightarrow> database option" where
  "recordMove sessionId userId m db =
     (if game_sessions db sessionId = None \<or> users db userId = None then None
      else Some (db\<lparr>game_moves := game_moves db @ [move_row sessionId userId m]\<rparr>))"

text \<open>
  \<open>addExperience\<close>: the \<open>while\<close> loop takes \<open>newLevel * 100\<close> points off per level.
  Reading \<open>user[0].level\<close> throws when the user has no row.
\<close>

function level_loop :: "int \<Rightarrow> int \<Rightarrow> int \<times> int" where
  "level_loop remainingXP newLevel =
     (if remainingXP \<ge> newLevel * 100
      then level_loop (remainingXP - newLevel * 100) (newLevel + 1)
      else (newLevel, remainingXP))"
  by pat_completeness auto
termination
  by (relation "measures [\<lambda>(x, l). nat (1 - l), \<lambda>(x, l). nat x]") auto

record level_result =
  oldLevel :: int
  newLevel :: int
  leveledUp :: bool

definition addExperience :: "nat \<Rightarrow> int \<Rightarrow> database \<Rightarrow> (level_result \<times> database) option" where
  "addExperience userId xp db =
     (case users db userId of
        None \<Rightarrow> None
      | Some user \<Rightarrow>
          let currentLevel = level user;
              newXP = experience_points user + xp;
              (lvl, remainingXP) = level_loop newXP currentLevel
          in Some (\<lparr>oldLevel = currentLevel, newLevel = lvl, leveledUp = (lvl > currentLevel)\<rparr>,
                   db\<lparr>users := (users db)(userId \<mapsto>
                         user\<lparr>level := lvl, experience_points := remainingXP\<rparr>)\<rparr>))"

text \<open>
  \<open>updateAchievementProgress\<close>: the UPDATE on the user's progress row. The counter
  \<open>times_unlocked\<close> of the catalogue and the list of achievements the call returns
  depend on the wall clock (\<open>Date.now()\<close> against \<open>unlocked_at\<close>) and are left out.
\<close>

definition updateAchievementProgress :: "nat \<Rightarrow> string \<Rightarrow> int \<Rightarrow> database \<Rightarrow> database" where
  "updateAchievementProgress userId achievementKey progress db =
     (case user_achievements db (userId, achievementKey) of
        None \<Rightarrow> db
      | Some ua \<Rightarrow> db\<lparr>user_achievements := (user_achievements db)((userId, achievementKey) \<mapsto>
          ua\<lparr>current_progress := progress,
             is_completed := (progress \<ge> required_progress ua),
             unlocked_at := (if progress \<ge> required_progress ua \<and> \<not> unlocked_at ua
                             then True else unlocked_at ua)\<rparr>)\<rparr>)"

definition checkMultipleAchievements :: "nat \<Rightarrow> (string \<times> int) list \<Rightarrow> database \<Rightarrow> database" where
  "checkMultipleAchievements userId checks db =
     foldl (\<lambda>d check. updateAchievementProgress userId (fst check) (snd check) d) db checks"

section \<open>The HTTP handlers\<close>

text \<open>
  A handler takes the authenticated user, the session id of the URL, the request body
  and the store, and returns the response with the store it leaves behind. The
  statements run against the pool without a transaction around the handler, so a
  failure partway keeps the writes made before it. Every field of the body is present.
  In \<open>if (session.player2_id)\<close> both NULL and 0 are falsy.
\<close>

record complete_body =
  winnerId :: "nat option"
  completionTime :: int
  moveCount :: int
  perfectGame :: bool
  speedBonus :: bool

record completion_payload =
  xpGained :: int
  pl_leveledUp :: bool
  pl_newLevel :: int
  eloChanges :: "(int \<times> int) option option"

datatype response =
    NotFound
  | AlreadyCompleted
  | ServerError
  | MoveRecorded
  | GameCompleted completion_payload

fun http_status :: "response \<Rightarrow> nat" where
  "http_status NotFound = 404"
| "http_status AlreadyCompleted = 400"
| "http_status ServerError = 500"
| "http_status MoveRecorded = 200"
| "http_status (GameCompleted p) = 200"

fun string_of_nat :: "nat \<Rightarrow> string" where
  "string_of_nat n =
     (if n < 10 then [char_of (48 + n)]
      else string_of_nat (n div 10) @ [char_of (48 + n mod 10)])"

definition speed_category :: "nat \<Rightarrow> string" where
  "speed_category bs = ''speed_'' @ string_of_nat bs @ ''x'' @ string_of_nat bs"

definition calculateAndUpdateELO ::
  "nat \<Rightarrow> nat \<Rightarrow> nat option \<Rightarrow> database \<Rightarrow> (int \<times> int) option \<times> database" where
  "calculateAndUpdateELO player1Id player2Id winner db =
     sp_update_elo player1Id player2Id winner db"

definition updateUserStatsAfterGame ::
  "nat \<Rightarrow> bool \<Rightarrow> int \<Rightarrow> int \<Rightarrow> nat \<Rightarrow> string \<Rightarrow> database \<Rightarrow> database" where
  "updateUserStatsAfterGame userId isWin completion moves boardSize gameMode db =
     sp_update_user_stats userId isWin completion moves boardSize gameMode db"

definition complete_updates :: "complete_body \<Rightarrow> session_updates" where
  "complete_updates body =
     \<lparr>upd_status = Some ''completed'', upd_winner_id = Some (winnerId body),
      upd_completion_time = Some (completionTime body), upd_move_count = Some (moveCount body),
      upd_perfect_game = Some (perfectGame body), upd_speed_bonus = Some (speedBonus body)\<rparr>"

definition xp_for :: "bool \<Rightarrow> complete_body \<Rightarrow> int" where
  "xp_for isWin body =
     50 + (if isWin then 25 else 0) + (if perfectGame body then 50 else 0)
        + (if speedBonus body then 30 else 0)"

text \<open>
  The handler of \<open>POST /api/games/:sessionId/complete\<close>, block by block: the rating
  update for a session with a second player, the achievement checks with the
  leaderboard update, everything that follows the update of the session row, and the
  handler with its guards in front.
\<close>

definition update_ratings ::
  "game_session \<Rightarrow> nat option \<Rightarrow> database \<Rightarrow> (int \<times> int) option option \<times> database" where
  "update_ratings session winner db =
     (case player2_id session of
        None \<Rightarrow> (None, db)
      | Some p2 \<Rightarrow>
          if p2 = 0 then (None, db)
          else (let (c, d) = calculateAndUpdateELO (player1_id session) p2 winner db
                in (Some c, d)))"

definition achievements_and_leaderboard ::
  "nat \<Rightarrow> complete_body \<Rightarrow> game_session \<Rightarrow> completion_payload \<Rightarrow> database
     \<Rightarrow> response \<times> database" where
  "achievements_and_leaderboard userId body session payload db4 =
     (case getUserStats db4 userId of
        None \<Rightarrow> (ServerError, db4)
      | Some stats \<Rightarrow>
          let db5 = checkMultipleAchievements userId
                      [(''first_steps'', 1),
                       (''puzzle_enthusiast'', total_games stats),
                       (''speed_demon'', completionTime body)] db4
          in if game_mode session = ''speed''
             then (case getUserStats db5 userId of
                     None \<Rightarrow> (ServerError, db5)
                   | Some stats2 \<Rightarrow>
                       (case updateLeaderboardEntry userId
                               (speed_category (board_size session))
                               (completionTime body) (elo_rating stats2)
                               ''all_time'' (leaderboards db5) of
                          Rejected tbl \<Rightarrow> (ServerError, db5\<lparr>leaderboards := tbl\<rparr>)
                        | Resolved tbl \<Rightarrow> (GameCompleted payload, db5\<lparr>leaderboards := tbl\<rparr>)))
             else (GameCompleted payload, db5))"

definition complete_effects ::
  "nat \<Rightarrow> complete_body \<Rightarrow> game_session \<Rightarrow> database \<Rightarrow> response \<times> database" where
  "complete_effects userId body session db1 =
     (let isWin = (winnerId body = Some userId);
          db2 = updateUserStatsAfterGame userId isWin (completionTime body)
                  (moveCount body) (board_size session) (game_mode session) db1;
          (changes, db3) = update_ratings session (winnerId body) db2;
          xp = xp_for isWin body
      in (case addExperience userId xp db3 of
            None \<Rightarrow> (ServerError, db3)
          | Some (levelResult, db4) \<Rightarrow>
              achievements_and_leaderboard userId body session
                \<lparr>xpGained = xp, pl_leveledUp = leveledUp levelResult,
                 pl_newLevel = newLevel levelResult, eloChanges = changes\<rparr> db4))"

definition complete_game ::
  "nat \<Rightarrow> nat \<Rightarrow> complete_body \<Rightarrow> database \<Rightarrow> response \<times> database" where
  "complete_game userId sessionId body db =
     (case getGameSession db sessionId of
        None \<Rightarrow> (NotFound, db)
      | Some session \<Rightarrow>
          if status session = ''completed'' then (AlreadyCompleted, db)
          else
            (case updateGameSession sessionId (complete_updates body) db of
               None \<Rightarrow> (ServerError, db)
             | Some db1 \<Rightarrow> complete_effects userId body session db1))"

definition post_move :: "nat \<Rightarrow> nat \<Rightarrow> move_data \<Rightarrow> database \<Rightarrow> response \<times> database" where
  "post_move userId sessionId body db =
     (case recordMove sessionId userId body db of
        None \<Rightarrow> (ServerError, db)
      | Some db' \<Rightarrow> (MoveRecorded, db'))"


section \<open>The socket handlers\<close>

text \<open>
  The server keeps the matchmaking queues (an object keyed by mode) and the active
  games (a \<open>Map\<close>, in insertion order) in memory. The calls it makes on the socket
  layer are recorded in order: joining a room and emitting an event to a socket, to a
  room, or to a room except the sending socket. A handler runs to its end before
  another starts. \<open>joinedAt\<close> of a queue entry is the wall clock and is left out.
\<close>

record socket =
  sock_id :: nat
  sock_userId :: nat
  sock_username :: string

record waiting_player =
  wp_userId :: nat
  wp_username :: string
  wp_socket :: socket
  wp_boardSize :: nat
  wp_elo :: "int option"

record participant =
  part_userId :: nat
  part_socket :: socket

record active_game =
  player1 :: participant
  player2 :: participant
  ag_boardSize :: nat
  ag_mode :: string

datatype event =
    MatchFound nat nat string "nat \<times> string" "nat \<times> string"
  | MatchmakingJoined nat string nat
  | OpponentMove move_data
  | OpponentDisconnected

datatype target = ToSocket nat | ToRoom string | ToRoomExcept string nat

datatype effect = JoinRoom nat string | Emit target event | LogError string

record server =
  store :: database
  matchmakingQueue :: "string \<rightharpoonup> waiting_player list"
  activeGames :: "(nat \<times> active_game) list"
  effects :: "effect list"

definition initial_queues :: "string \<rightharpoonup> waiting_player list" where
  "initial_queues = [''speed'' \<mapsto> [], ''fewest_moves'' \<mapsto> []]"

text \<open>\<open>Array.prototype.findIndex\<close>, with \<open>None\<close> for \<open>-1\<close>.\<close>

fun findIndex :: "('a \<Rightarrow> bool) \<Rightarrow> 'a list \<Rightarrow> nat option" where
  "findIndex P [] = None"
| "findIndex P (x # xs) =
     (if P x then Some 0 else map_option Suc (findIndex P xs))"

text \<open>\<open>queue.splice(index, 1)\<close> removes the element at the index.\<close>

definition splice1 :: "nat \<Rightarrow> 'a list \<Rightarrow> 'a list" where
  "splice1 i xs = take i xs @ drop (Suc i) xs"

text \<open>\<open>Map.prototype.set\<close>: a present key keeps its place, a new key goes last.\<close>

fun map_set :: "nat \<Rightarrow> 'v \<Rightarrow> (nat \<times> 'v) list \<Rightarrow> (nat \<times> 'v) list" where
  "map_set k v [] = [(k, v)]"
| "map_set k v (p # ps) = (if fst p = k then (k, v) # ps else p # map_set k v ps)"

definition room_of :: "nat \<Rightarrow> string" where
  "room_of sessionId = ''game_'' @ string_of_nat sessionId"

text \<open>In \<open>player.elo - userElo\<close> a \<open>null\<close> rating counts as 0.\<close>

definition js_number :: "int option \<Rightarrow> int" where
  "js_number v = (case v of None \<Rightarrow> 0 | Some n \<Rightarrow> n)"

definition suitable :: "nat \<Rightarrow> int option \<Rightarrow> waiting_player \<Rightarrow> bool" where
  "suitable boardSize userElo player =
     (wp_boardSize player = boardSize \<and> \<bar>js_number (wp_elo player) - js_number userElo\<bar> \<le> 200)"

datatype join_result = Matched nat | Queued nat | Threw

text \<open>
  \<open>join_matchmaking\<close>. The queue is \<open>matchmakingQueue[mode] || []\<close>: the array
  stored under the mode, or an empty array when the object has no such key. The
  object is an object literal, so for a key that it does not hold itself but inherits
  from \<open>Object.prototype\<close> the value is a function or an object, not an array, and
  \<open>queue.findIndex\<close> throws; \<open>queue_of\<close> is \<open>None\<close> then.
  \<open>userStats.elo_rating\<close> throws when the user has no stats row.
  On a match the stored array is spliced in place before the session is inserted, so a
  failing insert leaves the opponent out of the queue.
\<close>

definition inherited_keys :: "string list" where
  "inherited_keys =
     [''constructor'', ''toString'', ''toLocaleString'', ''valueOf'', ''hasOwnProperty'',
      ''isPrototypeOf'', ''propertyIsEnumerable'', ''__proto__'', ''__defineGetter__'',
      ''__defineSetter__'', ''__lookupGetter__'', ''__lookupSetter__'']"

definition queue_of :: "server \<Rightarrow> string \<Rightarrow> waiting_player list option" where
  "queue_of st mode =
     (case matchmakingQueue st mode of
        Some q \<Rightarrow> Some q
      | None \<Rightarrow> if mode \<in> set inherited_keys then None else Some [])"

definition join_matchmaking :: "socket \<Rightarrow> string \<Rightarrow> nat \<Rightarrow> server \<Rightarrow> join_result \<times> server" where
  "join_matchmaking sock mode boardSize st =
     (case getUserStats (store st) (sock_userId sock) of
        None \<Rightarrow> (Threw, st)
      | Some userStats \<Rightarrow>
          (case queue_of st mode of
             None \<Rightarrow> (Threw, st)
           | Some queue \<Rightarrow>
             let userElo = elo_rating userStats
             in (case findIndex (suitable boardSize userElo) queue of
                   Some opponentIndex \<Rightarrow>
                     let opponent = queue ! opponentIndex;
                         st1 = st\<lparr>matchmakingQueue :=
                                    (matchmakingQueue st)(mode \<mapsto> splice1 opponentIndex queue)\<rparr>
                     in (case createGameSession (sock_userId sock) (Some (wp_userId opponent))
                                 boardSize mode None (store st1) of
                           None \<Rightarrow> (Threw, st1)
                         | Some (sessionId, db') \<Rightarrow>
                             let roomId = room_of sessionId
                             in (Matched sessionId,
                                 st1\<lparr>store := db',
                                     activeGames := map_set sessionId
                                       \<lparr>player1 = \<lparr>part_userId = sock_userId sock, part_socket = sock\<rparr>,
                                        player2 = \<lparr>part_userId = wp_userId opponent,
                                                   part_socket = wp_socket opponent\<rparr>,
                                        ag_boardSize = boardSize, ag_mode = mode\<rparr>
                                       (activeGames st1),
                                     effects := effects st1 @
                                       [JoinRoom (sock_id sock) roomId,
                                        JoinRoom (sock_id (wp_socket opponent)) roomId,
                                        Emit (ToRoom roomId)
                                          (MatchFound sessionId boardSize mode
                                             (sock_userId sock, sock_username sock)
                                             (wp_userId opponent, wp_username opponent))]\<rparr>))
                 | None \<Rightarrow>
                     let queue' = queue @ [\<lparr>wp_userId = sock_userId sock,
                                            wp_username = sock_username sock, wp_socket = sock,
                                            wp_boardSize = boardSize, wp_elo = userElo\<rparr>]
                     in (Queued (length queue'),
                         st\<lparr>matchmakingQueue := (matchmakingQueue st)(mode \<mapsto> queue'),
                            effects := effects st @
                              [Emit (ToSocket (sock_id sock))
                                 (MatchmakingJoined (length queue') mode boardSize)]\<rparr>))))"

text \<open>
  \<open>game_move\<close>: the move is broadcast to the room, then recorded; a failing insert is
  caught and logged.
\<close>

definition game_move :: "socket \<Rightarrow> nat \<Rightarrow> move_data \<Rightarrow> server \<Rightarrow> server" where
  "game_move sock sessionId moveData st =
     (let st1 = st\<lparr>effects := effects st @
                   [Emit (ToRoomExcept (room_of sessionId) (sock_id sock)) (OpponentMove moveData)]\<rparr>
      in case recordMove sessionId (sock_userId sock) moveData (store st1) of
           None \<Rightarrow> st1\<lparr>effects := effects st1 @ [LogError ''Error recording move:'']\<rparr>
         | Some db' \<Rightarrow> st1\<lparr>store := db'\<rparr>)"

text \<open>
  \<open>disconnect\<close>: in every queue the first entry of the user is removed; every active
  game in which the user plays is announced to its room and deleted from the map.
\<close>

definition remove_first :: "('a \<Rightarrow> bool) \<Rightarrow> 'a list \<Rightarrow> 'a list" where
  "remove_first P xs = (case findIndex P xs of None \<Rightarrow> xs | Some i \<Rightarrow> splice1 i xs)"

definition plays_in :: "nat \<Rightarrow> active_game \<Rightarrow> bool" where
  "plays_in userId game = (part_userId (player1 game) = userId \<or> part_userId (player2 game) = userId)"

definition disconnect :: "socket \<Rightarrow> server \<Rightarrow> server" where
  "disconnect sock st =
     st\<lparr>matchmakingQueue := (\<lambda>mode. map_option
           (remove_first (\<lambda>p. wp_userId p = sock_userId sock)) (matchmakingQueue st mode)),
        activeGames := filter (\<lambda>(sessionId, game). \<not> plays_in (sock_userId sock) game)
                         (activeGames st),
        effects := effects st @
          map (\<lambda>(sessionId, game).
                 Emit (ToRoomExcept (room_of sessionId) (sock_id sock)) OpponentDisconnected)
            (filter (\<lambda>(sessionId, game). plays_in (sock_userId sock) game) (activeGames st))\<rparr>"


section \<open>Example stores\<close>

text \<open>Two users, both at the rating floor.\<close>

definition floor_db :: database where
  "floor_db = (new_user 2 (new_user 1 empty_database))\<lparr>user_stats_tbl :=
      [1 \<mapsto> default_user_stats\<lparr>elo_rating := Some 800\<rparr>,
       2 \<mapsto> default_user_stats\<lparr>elo_rating := Some 800\<rparr>]\<rparr>"

text \<open>
  Two new users in a speed match on a 4 by 4 board, as \<open>createGameSession\<close> leaves it;
  the body with which the first user reports a win in 45 seconds and 30 moves, and a
  body with which the second user reports a win of their own.
\<close>

definition match_session :: game_session where
  "match_session =
     \<lparr>player1_id = 1, player2_id = Some 2, winner_id = None, board_size = 4,
      game_mode = ''speed'', puzzle_config_id = None, status = ''in_progress'',
      completion_time = None, move_count = 0, perfect_game = False, speed_bonus = False,
      completed_at = False\<rparr>"

definition match_db :: database where
  "match_db = (new_user 2 (new_user 1 empty_database))
      \<lparr>game_sessions := [1 \<mapsto> match_session], next_session_id := 2\<rparr>"

definition winner_body :: complete_body where
  "winner_body = \<lparr>winnerId = Some 1, completionTime = 45, moveCount = 30,
                   perfectGame = False, speedBonus = True\<rparr>"

definition other_body :: complete_body where
  "other_body = \<lparr>winnerId = Some 2, completionTime = 50, moveCount = 40,
                  perfectGame = False, speedBonus = True\<rparr>"

text \<open>A body that names a winner who is not a user.\<close>

definition ghost_body :: complete_body where
  "ghost_body = \<lparr>winnerId = Some 99, completionTime = 45, moveCount = 30,
                  perfectGame = False, speedBonus = True\<rparr>"

text \<open>The same match with the stored status \<open>completed\<close>.\<close>

definition completed_db :: database where
  "completed_db = match_db\<lparr>game_sessions := [1 \<mapsto> match_session\<lparr>status := ''completed''\<rparr>]\<rparr>"

text \<open>
  The two users in a match of the mode \<open>fewest_moves\<close>, the second user holding rank 1
  of \<open>moves_4x4\<close> with 40 moves; and the same store with the stored status
  \<open>abandoned\<close>.
\<close>

definition moves_session :: game_session where
  "moves_session = match_session\<lparr>game_mode := ''fewest_moves''\<rparr>"

definition moves_db :: database where
  "moves_db = match_db\<lparr>game_sessions := [1 \<mapsto> moves_session],
      leaderboards :=
        [\<lparr>lb_user_id = 2, category = ''moves_4x4'', score = 40, lb_elo_rating = Some 1000,
          season = ''all_time'', rank_position = 1\<rparr>]\<rparr>"

definition abandoned_db :: database where
  "abandoned_db = moves_db\<lparr>game_sessions := [1 \<mapsto> moves_session\<lparr>status := ''abandoned''\<rparr>]\<rparr>"

text \<open>
  The speed match when the second user already holds rank 1 of \<open>speed_4x4\<close> with 50
  seconds.
\<close>

definition ranked_db :: database where
  "ranked_db = match_db\<lparr>leaderboards :=
      [\<lparr>lb_user_id = 2, category = ''speed_4x4'', score = 50, lb_elo_rating = Some 1000,
        season = ''all_time'', rank_position = 1\<rparr>]\<rparr>"

text \<open>A move.\<close>

definition a_move :: move_data where
  "a_move = \<lparr>moveNumber = 1, tilePosition = 14, emptyPosition = 15, md_direction = ''right'',
              boardState = [], timeElapsed = 1200\<rparr>"

text \<open>
  A server with three users rated 1000, 1350 and 1100, empty queues and no game, and a
  socket for each user.
\<close>

definition three_users :: database where
  "three_users = (new_user 3 (new_user 2 (new_user 1 empty_database)))\<lparr>user_stats_tbl :=
      [1 \<mapsto> default_user_stats,
       2 \<mapsto> default_user_stats\<lparr>elo_rating := Some 1350\<rparr>,
       3 \<mapsto> default_user_stats\<lparr>elo_rating := Some 1100\<rparr>]\<rparr>"

definition fresh_server :: server where
  "fresh_server = \<lparr>store = three_users, matchmakingQueue = initial_queues,
                    activeGames = [], effects = []\<rparr>"

definition sockA :: socket where
  "sockA = \<lparr>sock_id = 11, sock_userId = 1, sock_username = ''userA''\<rparr>"

definition sockB :: socket where
  "sockB = \<lparr>sock_id = 12, sock_userId = 2, sock_username = ''userB''\<rparr>"

definition sockC :: socket where
  "sockC = \<lparr>sock_id = 13, sock_userId = 3, sock_username = ''userC''\<rparr>"

text \<open>The server after user A, then user B, joined the speed queue for board size 4.\<close>

definition after_A :: server where
  "after_A = snd (join_matchmaking sockA ''speed'' 4 fresh_server)"

definition after_B :: server where
  "after_B = snd (join_matchmaking sockB ''speed'' 4 after_A)"

text \<open>A server on which the first two users play the match of \<open>match_db\<close>.\<close>

definition playing_server :: server where
  "playing_server =
     \<lparr>store = match_db, matchmakingQueue = initial_queues,
      activeGames = [(1, \<lparr>player1 = \<lparr>part_userId = 1, part_socket = sockA\<rparr>,
                          player2 = \<lparr>part_userId = 2, part_socket = sockB\<rparr>,
                          ag_boardSize = 4, ag_mode = ''speed''\<rparr>)],
      effects = []\<rparr>"

text \<open>A leaderboard with one entry in a category that names neither speed nor moves.\<close>

definition wins_tbl :: "leaderboard_row list" where
  "wins_tbl = [\<lparr>lb_user_id = 1, category = ''wins_overall'', score = 100,
               lb_elo_rating = Some 1000, season = ''all_time'', rank_position = 1\<rparr>]"

section \<open>Auxiliary notions\<close>

text \<open>A row without its rank.\<close>

definition erase_rank :: "leaderboard_row \<Rightarrow> leaderboard_row" where
  "erase_rank r = r\<lparr>rank_position := 0\<rparr>"

text \<open>
  A statistics row without its rating, and what a request made by another user leaves
  of a user \<open>u\<close>: the row in \<open>users\<close>, the achievement progress, the statistics apart
  from the rating, and the leaderboard entries.
\<close>

definition erase_elo :: "user_stats \<Rightarrow> user_stats" where
  "erase_elo r = r\<lparr>elo_rating := None\<rparr>"

definition untouched_for :: "nat \<Rightarrow> database \<Rightarrow> database \<Rightarrow> bool" where
  "untouched_for u db db' =
     (users db' u = users db u
      \<and> (\<forall>k. user_achievements db' (u, k) = user_achievements db (u, k))
      \<and> map_option erase_elo (user_stats_tbl db' u) = map_option erase_elo (user_stats_tbl db u)
      \<and> filter (\<lambda>r. lb_user_id r = u) (leaderboards db')
          = filter (\<lambda>r. lb_user_id r = u) (leaderboards db))"

section \<open>Formulas as the specification words them\<close>

text \<open>
  The specification gives the rolling averages as
  \<open>(oldAvg \<times> oldCount + newValue) / (oldCount + 1)\<close>.
\<close>

definition spec_incremental_mean :: "real \<Rightarrow> int \<Rightarrow> real \<Rightarrow> real" where
  "spec_incremental_mean oldAvg oldCount newValue =
     (oldAvg * real_of_int oldCount + newValue) / real_of_int (oldCount + 1)"

text \<open>
  The specification gives each delta as \<open>round(K \<times> (actual - expected))\<close> with
  \<open>K = 32\<close> and \<open>expected = 1 / (1 + 10^((ratingB - ratingA)/400))\<close>. This definition
  follows those words, with no intermediate rounding of the expected score.
\<close>

definition spec_delta :: "real \<Rightarrow> int \<Rightarrow> int \<Rightarrow> int" where
  "spec_delta actual ratingA ratingB =
     round (32 * (actual - 1 / (1 + 10 powr (real_of_int (ratingB - ratingA) / 400))))"

section \<open>Properties of the rating computation\<close>

lemma expected_score_equal: "expected_score r r = 1 / 2"
  by (simp add: expected_score_def dec_round_def mysql_round_def)

lemma clamp_elo_bounds: "800 \<le> clamp_elo r \<and> clamp_elo r \<le> 3000"
  by (simp add: clamp_elo_def)

text \<open>
  Claim C4. Two players both rated 1000, with the factor 32: when the first player wins
  the changes are +16 and -16, on a draw they are 0 and 0, and for every outcome each
  change is the rounded value of 32 times actual minus expected score, the expected
  score following the logistic formula.
\<close>

theorem elo_equal_ratings:
  "k_factor = 32
   \<and> elo_changes 1000 1000 (actual_scores a b (Some a)) = (16, - 16)
   \<and> elo_changes 1000 1000 (actual_scores a b None) = (0, 0)
   \<and> elo_changes 1000 1000 (actual_scores a b w) =
       (spec_delta (fst (actual_scores a b w)) 1000 1000,
        spec_delta (snd (actual_scores a b w)) 1000 1000)"
  by (simp add: elo_changes_def elo_change_def expected_score_equal actual_scores_def
        k_factor_def mysql_round_def spec_delta_def round_def)


lemma read_elo_write_same:
  "read_elo db u = Some r \<Longrightarrow> read_elo (write_elo u (Some c) db) u = Some (clamp_elo (r + c))"
  by (auto simp: read_elo_def write_elo_def split: option.splits)

lemma read_elo_write_other:
  "u \<noteq> v \<Longrightarrow> read_elo (write_elo u c db) v = read_elo db v"
  by (auto simp: read_elo_def write_elo_def split: option.splits)

text \<open>
  Claim C3. For all ratings of the two players and every outcome, the rating of each
  player after \<open>sp_update_elo\<close> lies between 800 and 3000. The clamp is applied to the
  old rating plus the change: the changes the procedure returns are the unclamped ones,
  and the stored rating of each of two different players is the clamped sum.
\<close>

theorem elo_rating_bounds:
  assumes "read_elo db p1 = Some r1" and "read_elo db p2 = Some r2"
    and "sp_update_elo p1 p2 w db = (changes, db')"
    and "elo_changes r1 r2 (actual_scores p1 p2 w) = (c1, c2)"
  shows "changes = Some (c1, c2)
     \<and> (\<exists>e1. read_elo db' p1 = Some e1 \<and> 800 \<le> e1 \<and> e1 \<le> 3000)
     \<and> (\<exists>e2. read_elo db' p2 = Some e2 \<and> 800 \<le> e2 \<and> e2 \<le> 3000)
     \<and> (p1 \<noteq> p2 \<longrightarrow> read_elo db' p1 = Some (clamp_elo (r1 + c1))
                    \<and> read_elo db' p2 = Some (clamp_elo (r2 + c2)))"
proof -
  let ?db1 = "write_elo p1 (Some c1) db"
  have ch: "changes = Some (c1, c2)" and db': "db' = write_elo p2 (Some c2) ?db1"
    using assms by (auto simp: sp_update_elo_def Let_def)
  have r1': "read_elo ?db1 p1 = Some (clamp_elo (r1 + c1))"
    using assms(1) by (rule read_elo_write_same)
  show ?thesis
  proof (cases "p1 = p2")
    case True
    have "read_elo db' p2 = Some (clamp_elo (clamp_elo (r1 + c1) + c2))"
      unfolding db' using r1' True read_elo_write_same by simp
    with True ch show ?thesis by (simp add: clamp_elo_bounds)
  next
    case False
    have a: "read_elo db' p1 = Some (clamp_elo (r1 + c1))"
      unfolding db' using False r1' by (simp add: read_elo_write_other)
    have "read_elo ?db1 p2 = Some r2"
      using False assms(2) by (simp add: read_elo_write_other)
    then have b: "read_elo db' p2 = Some (clamp_elo (r2 + c2))"
      unfolding db' by (rule read_elo_write_same)
    from a b ch False show ?thesis by (simp add: clamp_elo_bounds)
  qed
qed

lemma floor_db_elo: "read_elo floor_db 1 = Some 800" "read_elo floor_db 2 = Some 800"
  by (simp_all add: floor_db_def read_elo_def)

lemma floor_db_changes: "elo_changes 800 800 (actual_scores 1 2 (Some 2)) = (- 16, 16)"
  by (simp add: elo_changes_def elo_change_def expected_score_equal actual_scores_def
        k_factor_def mysql_round_def)

text \<open>
  Two players at 800, the second wins: the loser's change of -16 is returned as it is,
  and the loser's rating stays at 800.
\<close>

theorem elo_rating_bounds_witness:
  "read_elo floor_db 1 = Some 800 \<and> read_elo floor_db 2 = Some 800
   \<and> fst (sp_update_elo 1 2 (Some 2) floor_db) = Some (- 16, 16)
   \<and> read_elo (snd (sp_update_elo 1 2 (Some 2) floor_db)) 1 = Some 800
   \<and> read_elo (snd (sp_update_elo 1 2 (Some 2) floor_db)) 2 = Some 816"
  using elo_rating_bounds [OF floor_db_elo(1) floor_db_elo(2) _ floor_db_changes,
          of "fst (sp_update_elo 1 2 (Some 2) floor_db)"
             "snd (sp_update_elo 1 2 (Some 2) floor_db)"]
    floor_db_elo
  by (simp add: clamp_elo_def)

section \<open>Properties of the statistics procedure\<close>

lemma average_completion_time_update:
  "average_completion_time (sp_update_user_stats_row w t m bs mode r) =
     mysql_round (real_of_int (average_completion_time r * (total_games r + 1) + t)
                    / real_of_int (total_games r + 2))"
  by (simp add: sp_update_user_stats_row_def update_board_size_stats_def update_mode_stats_def
        update_basic_stats_def Let_def add.commute)

lemma average_moves_update:
  "average_moves (sp_update_user_stats_row w t m bs mode r) =
     dec_round 2 ((average_moves r * real_of_int (total_games r + 1) + real_of_int m)
                    / real_of_int (total_games r + 2))"
  by (simp add: sp_update_user_stats_row_def update_board_size_stats_def update_mode_stats_def
        update_basic_stats_def Let_def add.commute)

lemma best_completion_time_update:
  "best_completion_time (sp_update_user_stats_row w t m bs mode r) =
     (if t > 0 \<and> (best_completion_time r = 0 \<or> t < best_completion_time r)
      then t else best_completion_time r)"
  by (simp add: sp_update_user_stats_row_def update_board_size_stats_def update_mode_stats_def
        update_basic_stats_def Let_def)

lemma best_move_count_update:
  "best_move_count (sp_update_user_stats_row w t m bs mode r) =
     (if best_move_count r = 0 \<or> m < best_move_count r then m else best_move_count r)"
  by (simp add: sp_update_user_stats_row_def update_board_size_stats_def update_mode_stats_def
        update_basic_stats_def Let_def)

text \<open>
  Claim C9, evaluated on the code. A new user (no games, averages 0) finishes a first
  game in 60 seconds and 30 moves. The incremental mean over the old count is 60
  seconds and 30 moves. The procedure increments \<open>total_games\<close> first in the same SET
  list, so its averages divide by the old count plus 2: it stores 30 seconds and 15
  moves.
\<close>

theorem first_game_average:
  "total_games default_user_stats = 0
   \<and> average_completion_time default_user_stats = 0
   \<and> spec_incremental_mean 0 0 60 = 60
   \<and> average_completion_time
        (sp_update_user_stats_row True 60 30 4 ''speed'' default_user_stats) = 30
   \<and> spec_incremental_mean 0 0 30 = 30
   \<and> average_moves
        (sp_update_user_stats_row True 60 30 4 ''speed'' default_user_stats) = 15"
  by (simp add: average_completion_time_update average_moves_update default_user_stats_def
        spec_incremental_mean_def mysql_round_def dec_round_def)


section \<open>Properties of the leaderboard\<close>

lemma assign_ranks_length [simp]: "length (assign_ranks is r tbl) = length tbl"
  by (induction "is" arbitrary: r tbl) auto

lemma assign_ranks_nth_out: "j \<notin> set is \<Longrightarrow> assign_ranks is r tbl ! j = tbl ! j"
  by (induction "is" arbitrary: r tbl) auto

lemma assign_ranks_nth_in:
  "distinct is \<Longrightarrow> \<forall>i \<in> set is. i < length tbl \<Longrightarrow> k < length is \<Longrightarrow>
     assign_ranks is r tbl ! (is ! k) = (tbl ! (is ! k))\<lparr>rank_position := r + int k + 1\<rparr>"
proof (induction "is" arbitrary: r tbl k)
  case Nil
  then show ?case by simp
next
  case (Cons i "is")
  show ?case
  proof (cases k)
    case 0
    then show ?thesis using Cons.prems by (simp add: assign_ranks_nth_out)
  next
    case (Suc k')
    let ?tbl = "tbl[i := (tbl ! i)\<lparr>rank_position := r + 1\<rparr>]"
    have neq: "is ! k' \<noteq> i" using Cons.prems Suc by auto
    have "assign_ranks is (r + 1) ?tbl ! (is ! k') = (?tbl ! (is ! k'))\<lparr>rank_position := r + 1 + int k' + 1\<rparr>"
      using Cons.prems Suc by (intro Cons.IH) auto
    then show ?thesis using Suc neq by simp
  qed
qed

lemma assign_ranks_erase: "map erase_rank (assign_ranks is r tbl) = map erase_rank tbl"
proof (induction "is" arbitrary: r tbl)
  case Nil
  then show ?case by simp
next
  case (Cons i "is")
  have "map erase_rank (tbl[i := (tbl ! i)\<lparr>rank_position := r + 1\<rparr>]) = map erase_rank tbl"
    by (cases "i < length tbl")
       (simp_all add: map_update erase_rank_def list_update_same_conv list_update_beyond)
  then show ?case using Cons.IH by simp
qed

lemma filter_as_indices: "filter P xs = map ((!) xs) (filter (\<lambda>i. P (xs ! i)) [0..<length xs])"
proof (induction xs rule: rev_induct)
  case Nil
  then show ?case by simp
next
  case (snoc x xs)
  have f: "filter (\<lambda>i. P ((xs @ [x]) ! i)) [0..<length xs] = filter (\<lambda>i. P (xs ! i)) [0..<length xs]"
    by (rule filter_cong) (auto simp: nth_append)
  have "map ((!) (xs @ [x])) (filter (\<lambda>i. P (xs ! i)) [0..<length xs])
      = map ((!) xs) (filter (\<lambda>i. P (xs ! i)) [0..<length xs])"
    by (rule map_cong) (auto simp: nth_append)
  then show ?case using snoc f by simp
qed

lemma assign_ranks_fields:
  assumes "j < length tbl"
  shows "category (assign_ranks is r tbl ! j) = category (tbl ! j)"
    and "season (assign_ranks is r tbl ! j) = season (tbl ! j)"
    and "lb_user_id (assign_ranks is r tbl ! j) = lb_user_id (tbl ! j)"
    and "score (assign_ranks is r tbl ! j) = score (tbl ! j)"
proof -
  have "map erase_rank (assign_ranks is r tbl) ! j = map erase_rank tbl ! j"
    by (simp add: assign_ranks_erase)
  then have e: "erase_rank (assign_ranks is r tbl ! j) = erase_rank (tbl ! j)"
    using assms by simp
  have c: "\<And>x. category (erase_rank x) = category x" "\<And>x. season (erase_rank x) = season x"
    "\<And>x. lb_user_id (erase_rank x) = lb_user_id x" "\<And>x. score (erase_rank x) = score x"
    by (simp_all add: erase_rank_def)
  show "category (assign_ranks is r tbl ! j) = category (tbl ! j)" using e c(1) by metis
  show "season (assign_ranks is r tbl ! j) = season (tbl ! j)" using e c(2) by metis
  show "lb_user_id (assign_ranks is r tbl ! j) = lb_user_id (tbl ! j)" using e c(3) by metis
  show "score (assign_ranks is r tbl ! j) = score (tbl ! j)" using e c(4) by metis
qed

lemma partition_indices_assign:
  "partition_indices cat seas (assign_ranks is r tbl) = partition_indices cat seas tbl"
  unfolding partition_indices_def
  by (simp, rule filter_cong) (auto simp: in_partition_def assign_ranks_fields)

lemma partition_rows_indices:
  "partition_rows cat seas tbl = map ((!) tbl) (partition_indices cat seas tbl)"
  unfolding partition_rows_def partition_indices_def by (rule filter_as_indices)

lemma partition_indices_props:
  "distinct (partition_indices cat seas tbl)"
  "i \<in> set (partition_indices cat seas tbl) \<Longrightarrow> i < length tbl"
  by (auto simp: partition_indices_def)

lemma order_by_score_props:
  "set (order_by_score cat tbl idxs) = set idxs"
  "length (order_by_score cat tbl idxs) = length idxs"
  "distinct (order_by_score cat tbl idxs) = distinct idxs"
  by (auto simp: order_by_score_def)

lemma order_by_score_sorted:
  assumes "k < l" "l < length idxs"
  shows "in_rank_order cat (score (tbl ! (order_by_score cat tbl idxs ! k)))
           (score (tbl ! (order_by_score cat tbl idxs ! l)))"
proof (cases "ascending cat")
  case True
  have "sorted (map (\<lambda>i. score (tbl ! i)) (sort_key (\<lambda>i. score (tbl ! i)) idxs))"
    by (rule sorted_sort_key)
  then show ?thesis using True assms
    by (auto simp: in_rank_order_def order_by_score_def sorted_iff_nth_mono dest!: spec[of _ k] spec[of _ l])
next
  case False
  have "sorted (map (\<lambda>i. - score (tbl ! i)) (sort_key (\<lambda>i. - score (tbl ! i)) idxs))"
    by (rule sorted_sort_key)
  then show ?thesis using False assms
    by (auto simp: in_rank_order_def order_by_score_def sorted_iff_nth_mono dest!: spec[of _ k] spec[of _ l])
qed


lemma update_ranks_nth_in:
  assumes "k < length (partition_indices cat seas tbl)"
  shows "update_ranks cat seas tbl
           ! (order_by_score cat tbl (partition_indices cat seas tbl) ! k)
         = (tbl ! (order_by_score cat tbl (partition_indices cat seas tbl) ! k))
             \<lparr>rank_position := int k + 1\<rparr>"
  unfolding update_ranks_def
  using assms assign_ranks_nth_in[of "order_by_score cat tbl (partition_indices cat seas tbl)" tbl k 0]
  by (simp add: order_by_score_props partition_indices_props)

lemma update_ranks_list:
  "map (\<lambda>i. rank_position (update_ranks cat seas tbl ! i))
       (order_by_score cat tbl (partition_indices cat seas tbl))
   = map (\<lambda>k. int k + 1) [0..<length (partition_indices cat seas tbl)]"
  by (rule nth_equalityI) (simp_all add: order_by_score_props update_ranks_nth_in)


lemma ranks_upto: "set (map (\<lambda>k. int k + 1) [0..<n]) = {1 .. int n}"
proof
  show "set (map (\<lambda>k. int k + 1) [0..<n]) \<subseteq> {1 .. int n}" by auto
  show "{1 .. int n} \<subseteq> set (map (\<lambda>k. int k + 1) [0..<n])"
  proof
    fix x assume "x \<in> {1 .. int n}"
    then have "nat (x - 1) < n" "x = int (nat (x - 1)) + 1" by auto
    then show "x \<in> set (map (\<lambda>k. int k + 1) [0..<n])" by (metis (no_types, lifting) atLeast0LessThan image_eqI lessThan_iff list.set_map set_upt)
  qed
qed

lemma distinct_ranks_upto: "distinct (map (\<lambda>k. int k + 1) [0..<n])"
  by (simp add: distinct_map inj_on_def)

text \<open>
  Run on a partition with one row per user, the UPDATE statement alone would leave the
  ranks consistent.
\<close>

lemma update_ranks_consistent:
  assumes "distinct (map lb_user_id (partition_rows cat seas tbl))"
  shows "rank_consistent cat seas (update_ranks cat seas tbl)"
proof -
  let ?tbl' = "update_ranks cat seas tbl"
  let ?idxs = "partition_indices cat seas tbl"
  let ?ord = "order_by_score cat tbl ?idxs"
  let ?n = "length ?idxs"
  let ?f = "\<lambda>i. rank_position (?tbl' ! i)"
  let ?rows = "partition_rows cat seas ?tbl'"
  have rows: "?rows = map ((!) ?tbl') ?idxs"
    by (simp add: partition_rows_indices update_ranks_def partition_indices_assign)
  have "map lb_user_id (map ((!) ?tbl') ?idxs) = map lb_user_id (map ((!) tbl) ?idxs)"
    unfolding update_ranks_def map_map
    by (rule map_cong) (simp_all add: assign_ranks_fields partition_indices_props)
  then have users: "map lb_user_id ?rows = map lb_user_id (partition_rows cat seas tbl)"
    by (simp only: rows partition_rows_indices [of cat seas tbl])
  have card: "card (lb_user_id ` set ?rows) = ?n"
  proof -
    have "distinct (map lb_user_id ?rows)" using assms users by simp
    then have "card (set (map lb_user_id ?rows)) = length (map lb_user_id ?rows)"
      by (rule distinct_card)
    then have "card (lb_user_id ` set ?rows) = length ?rows"
      by (simp only: set_map length_map)
    moreover have "length ?rows = ?n" by (simp only: rows length_map)
    ultimately show ?thesis by simp
  qed
  have ranks: "map rank_position ?rows = map ?f ?idxs" by (simp add: rows)
  have ford: "map ?f ?ord = map (\<lambda>k. int k + 1) [0..<?n]" by (rule update_ranks_list)
  have "set (map ?f ?idxs) = set (map ?f ?ord)" by (simp add: order_by_score_props)
  then have g1: "set (map rank_position ?rows) = {1 .. int ?n}"
    unfolding ranks ford by (simp only: ranks_upto)
  have "distinct (map ?f ?ord)" unfolding ford by (rule distinct_ranks_upto)
  then have "inj_on ?f (set ?ord)" by (simp add: distinct_map)
  then have "inj_on ?f (set ?idxs)" by (simp add: order_by_score_props)
  then have g2: "distinct (map rank_position ?rows)"
    unfolding ranks by (simp add: distinct_map partition_indices_props)
  have g3: "length ?rows = ?n" by (simp add: rows)
  have g4: "in_rank_order cat (score a) (score b)"
    if a: "a \<in> set ?rows" and b: "b \<in> set ?rows" and lt: "rank_position a < rank_position b" for a b
  proof -
    have mem: "\<exists>k < ?n. x = ?tbl' ! (?ord ! k)" if "x \<in> set ?rows" for x
    proof -
      from that obtain i where "i \<in> set ?idxs" "x = ?tbl' ! i"
        unfolding rows by auto
      moreover from this obtain k where "k < length ?ord" "?ord ! k = i"
        by (metis in_set_conv_nth order_by_score_props(1))
      ultimately show ?thesis by (auto simp: order_by_score_props)
    qed
    from mem[OF a] mem[OF b]
    obtain k l where k: "k < ?n" "a = ?tbl' ! (?ord ! k)" and l: "l < ?n" "b = ?tbl' ! (?ord ! l)"
      by blast
    have ra: "a = (tbl ! (?ord ! k))\<lparr>rank_position := int k + 1\<rparr>"
      using k by (simp add: update_ranks_nth_in)
    have rb: "b = (tbl ! (?ord ! l))\<lparr>rank_position := int l + 1\<rparr>"
      using l by (simp add: update_ranks_nth_in)
    have "k < l" using lt ra rb by simp
    then have "in_rank_order cat (score (tbl ! (?ord ! k))) (score (tbl ! (?ord ! l)))"
      using l(1) by (rule order_by_score_sorted)
    then show ?thesis using ra rb by simp
  qed
  show ?thesis
    unfolding rank_consistent_def Let_def card using g1 g2 g3 g4 by blast
qed


lemma recalculateLeaderboardRanks_rejects:
  "recalculateLeaderboardRanks cat seas tbl = None"
  by (simp add: recalculateLeaderboardRanks_def pool_execute_def)

lemma updateLeaderboardEntry_rejects:
  "updateLeaderboardEntry userId cat new_score eloRating seas tbl
     = Rejected (upsert_entry userId cat new_score eloRating seas tbl)"
  by (simp add: updateLeaderboardEntry_def recalculateLeaderboardRanks_rejects)

lemma shouldUpdate_iff: "shouldUpdate cat new_score existing = (new_score < score existing)"
  by (simp add: shouldUpdate_def)

text \<open>
  Claim C5, evaluated on the code. The first upsert on the empty partition of
  \<open>speed_4x4\<close> inserts the row with \<open>rank_position\<close> 0. The recalculation sends its
  two statements as one prepared statement, which the server refuses, so no rank is
  written and the call rejects: the partition has one user and its set of ranks is
  \<open>{0}\<close>, where the claim has \<open>{1}\<close>.
\<close>

theorem first_upsert_keeps_rank_zero:
  "recalculateLeaderboardRanks ''speed_4x4'' ''all_time''
       [\<lparr>lb_user_id = 1, category = ''speed_4x4'', score = 45, lb_elo_rating = Some 1016,
         season = ''all_time'', rank_position = 0\<rparr>] = None
   \<and> updateLeaderboardEntry 1 ''speed_4x4'' 45 (Some 1016) ''all_time'' []
       = Rejected [\<lparr>lb_user_id = 1, category = ''speed_4x4'', score = 45,
                    lb_elo_rating = Some 1016, season = ''all_time'', rank_position = 0\<rparr>]
   \<and> map rank_position
         (partition_rows ''speed_4x4'' ''all_time''
            (table_of (updateLeaderboardEntry 1 ''speed_4x4'' 45 (Some 1016) ''all_time'' [])))
       = [0]"
  by (simp add: updateLeaderboardEntry_def recalculateLeaderboardRanks_def pool_execute_def
        upsert_entry_def partition_rows_def in_partition_def)

text \<open>
  Claim C6, evaluated on the code. The category \<open>wins_overall\<close> names neither speed
  nor moves, so its ranks are to be assigned in descending order of score. An entry
  with score 100 exists. An upsert with the higher score 150 leaves the score at 100;
  an upsert with the lower score 50 overwrites it.
\<close>

theorem other_category_upsert:
  "\<not> ascending ''wins_overall''
   \<and> map score (table_of
         (updateLeaderboardEntry 1 ''wins_overall'' 150 (Some 1000) ''all_time'' wins_tbl))
       = [100]
   \<and> map score (table_of
         (updateLeaderboardEntry 1 ''wins_overall'' 50 (Some 1000) ''all_time'' wins_tbl))
       = [50]"
  by (simp add: ascending_def updateLeaderboardEntry_rejects upsert_entry_def wins_tbl_def
        is_entry_def shouldUpdate_def)

section \<open>What each database operation leaves unchanged\<close>

lemma sp_update_user_stats_frame [simp]:
  "users (sp_update_user_stats p w t m bs mode db) = users db"
  "game_sessions (sp_update_user_stats p w t m bs mode db) = game_sessions db"
  "game_moves (sp_update_user_stats p w t m bs mode db) = game_moves db"
  "leaderboards (sp_update_user_stats p w t m bs mode db) = leaderboards db"
  "user_achievements (sp_update_user_stats p w t m bs mode db) = user_achievements db"
  "u \<noteq> p \<Longrightarrow> user_stats_tbl (sp_update_user_stats p w t m bs mode db) u = user_stats_tbl db u"
  by (simp_all add: sp_update_user_stats_def split: option.splits)

lemma write_elo_frame [simp]:
  "users (write_elo p c db) = users db"
  "game_sessions (write_elo p c db) = game_sessions db"
  "game_moves (write_elo p c db) = game_moves db"
  "leaderboards (write_elo p c db) = leaderboards db"
  "user_achievements (write_elo p c db) = user_achievements db"
  "map_option erase_elo (user_stats_tbl (write_elo p c db) u) = map_option erase_elo (user_stats_tbl db u)"
  by (simp_all add: write_elo_def erase_elo_def split: option.splits)

lemma sp_update_elo_frame [simp]:
  "users (snd (sp_update_elo p1 p2 w db)) = users db"
  "game_sessions (snd (sp_update_elo p1 p2 w db)) = game_sessions db"
  "game_moves (snd (sp_update_elo p1 p2 w db)) = game_moves db"
  "leaderboards (snd (sp_update_elo p1 p2 w db)) = leaderboards db"
  "user_achievements (snd (sp_update_elo p1 p2 w db)) = user_achievements db"
  "map_option erase_elo (user_stats_tbl (snd (sp_update_elo p1 p2 w db)) u) = map_option erase_elo (user_stats_tbl db u)"
  by (simp_all add: sp_update_elo_def Let_def)

lemma addExperience_frame:
  assumes "addExperience p xp db = Some (res, db')"
  shows "game_sessions db' = game_sessions db"
    "game_moves db' = game_moves db"
    "leaderboards db' = leaderboards db"
    "user_achievements db' = user_achievements db"
    "user_stats_tbl db' = user_stats_tbl db"
    "u \<noteq> p \<Longrightarrow> users db' u = users db u"
  using assms by (auto simp: addExperience_def Let_def split: option.splits prod.splits)

lemma updateAchievementProgress_frame [simp]:
  "users (updateAchievementProgress p k v db) = users db"
  "game_sessions (updateAchievementProgress p k v db) = game_sessions db"
  "game_moves (updateAchievementProgress p k v db) = game_moves db"
  "leaderboards (updateAchievementProgress p k v db) = leaderboards db"
  "user_stats_tbl (updateAchievementProgress p k v db) = user_stats_tbl db"
  "u \<noteq> p \<Longrightarrow> user_achievements (updateAchievementProgress p k v db) (u, k') = user_achievements db (u, k')"
  by (simp_all add: updateAchievementProgress_def split: option.splits)

lemma checkMultipleAchievements_frame [simp]:
  "users (checkMultipleAchievements p checks db) = users db"
  "game_sessions (checkMultipleAchievements p checks db) = game_sessions db"
  "game_moves (checkMultipleAchievements p checks db) = game_moves db"
  "leaderboards (checkMultipleAchievements p checks db) = leaderboards db"
  "user_stats_tbl (checkMultipleAchievements p checks db) = user_stats_tbl db"
  "u \<noteq> p \<Longrightarrow> user_achievements (checkMultipleAchievements p checks db) (u, k') = user_achievements db (u, k')"
  unfolding checkMultipleAchievements_def
  by (induction checks arbitrary: db; simp)+

lemma upsert_other_user:
  assumes "u \<noteq> p"
  shows "filter (\<lambda>r. lb_user_id r = u) (upsert_entry p cat sc elo seas tbl) = filter (\<lambda>r. lb_user_id r = u) tbl"
proof (cases "filter (is_entry p cat seas) tbl")
  case Nil
  then show ?thesis using assms by (simp add: upsert_entry_def)
next
  case (Cons e es)
  have "filter (\<lambda>r. lb_user_id r = u) (map (\<lambda>r. if is_entry p cat seas r
                         then r\<lparr>score := sc, lb_elo_rating := elo\<rparr> else r) tbl)
        = filter (\<lambda>r. lb_user_id r = u) tbl"
    using assms by (induction tbl) (auto simp: is_entry_def)
  then show ?thesis using Cons by (simp add: upsert_entry_def)
qed

lemma updateLeaderboardEntry_other_user:
  assumes "u \<noteq> p"
  shows "filter (\<lambda>r. lb_user_id r = u) (table_of (updateLeaderboardEntry p cat sc elo seas tbl))
       = filter (\<lambda>r. lb_user_id r = u) tbl"
  by (simp add: updateLeaderboardEntry_rejects upsert_other_user[OF assms])

lemma update_ratings_frame [simp]:
  "users (snd (update_ratings session w db)) = users db"
  "game_sessions (snd (update_ratings session w db)) = game_sessions db"
  "game_moves (snd (update_ratings session w db)) = game_moves db"
  "leaderboards (snd (update_ratings session w db)) = leaderboards db"
  "user_achievements (snd (update_ratings session w db)) = user_achievements db"
  "map_option erase_elo (user_stats_tbl (snd (update_ratings session w db)) u)
     = map_option erase_elo (user_stats_tbl db u)"
  by (simp_all add: update_ratings_def calculateAndUpdateELO_def split_beta split: option.splits)

lemma achievements_and_leaderboard_frame [simp]:
  "users (snd (achievements_and_leaderboard p body session payload db)) = users db"
  "game_sessions (snd (achievements_and_leaderboard p body session payload db)) = game_sessions db"
  "game_moves (snd (achievements_and_leaderboard p body session payload db)) = game_moves db"
  "user_stats_tbl (snd (achievements_and_leaderboard p body session payload db)) = user_stats_tbl db"
  "u \<noteq> p \<Longrightarrow> user_achievements (snd (achievements_and_leaderboard p body session payload db)) (u, k)
     = user_achievements db (u, k)"
  "u \<noteq> p \<Longrightarrow> filter (\<lambda>r. lb_user_id r = u)
        (leaderboards (snd (achievements_and_leaderboard p body session payload db)))
     = filter (\<lambda>r. lb_user_id r = u) (leaderboards db)"
  by (simp_all add: achievements_and_leaderboard_def getUserStats_def Let_def
        updateLeaderboardEntry_rejects upsert_other_user split: option.splits)


lemma untouched_for_trans:
  "untouched_for u db db1 \<Longrightarrow> untouched_for u db1 db2 \<Longrightarrow> untouched_for u db db2"
  by (simp add: untouched_for_def)

lemma untouched_stats: "u \<noteq> p \<Longrightarrow> untouched_for u db (updateUserStatsAfterGame p w t m bs mode db)"
  by (simp add: untouched_for_def updateUserStatsAfterGame_def)

lemma untouched_ratings: "untouched_for u db (snd (update_ratings session w db))"
  by (simp add: untouched_for_def)

lemma untouched_experience:
  "u \<noteq> p \<Longrightarrow> addExperience p xp db = Some (res, db') \<Longrightarrow> untouched_for u db db'"
  by (simp add: untouched_for_def addExperience_frame)

lemma untouched_achievements:
  "u \<noteq> p \<Longrightarrow> untouched_for u db (snd (achievements_and_leaderboard p body session payload db))"
  by (simp add: untouched_for_def)

section \<open>Properties of the complete handler\<close>

lemma complete_effects_cases:
  obtains (failed) "snd (complete_effects p body session db)
              = snd (update_ratings session (winnerId body)
                  (updateUserStatsAfterGame p (winnerId body = Some p) (completionTime body)
                    (moveCount body) (board_size session) (game_mode session) db))"
  | (passed) lr db4 payload where
      "addExperience p (xp_for (winnerId body = Some p) body)
         (snd (update_ratings session (winnerId body)
            (updateUserStatsAfterGame p (winnerId body = Some p) (completionTime body)
               (moveCount body) (board_size session) (game_mode session) db))) = Some (lr, db4)"
      "complete_effects p body session db
         = achievements_and_leaderboard p body session payload db4"
proof (cases "addExperience p (xp_for (winnerId body = Some p) body)
         (snd (update_ratings session (winnerId body)
            (updateUserStatsAfterGame p (winnerId body = Some p) (completionTime body)
               (moveCount body) (board_size session) (game_mode session) db)))")
  case None
  then show ?thesis by (intro failed) (simp add: complete_effects_def Let_def split_beta)
next
  case (Some a)
  then show ?thesis by (cases a, intro passed) (simp_all add: complete_effects_def Let_def split_beta)
qed


lemma complete_effects_untouched:
  assumes "u \<noteq> p"
  shows "untouched_for u db (snd (complete_effects p body session db))"
proof (cases rule: complete_effects_cases[of p body session db])
  case failed
  show ?thesis unfolding failed
    by (rule untouched_for_trans[OF untouched_stats[OF assms] untouched_ratings])
next
  case (passed lr db4 payload)
  have "untouched_for u db db4"
    by (rule untouched_for_trans[OF untouched_for_trans[OF untouched_stats[OF assms] untouched_ratings]
          untouched_experience[OF assms passed(1)]])
  then show ?thesis unfolding passed(2)
    by (rule untouched_for_trans[OF _ untouched_achievements[OF assms]])
qed

lemma complete_effects_sessions:
  "game_sessions (snd (complete_effects p body session db)) = game_sessions db"
proof (cases rule: complete_effects_cases[of p body session db])
  case failed
  show ?thesis unfolding failed by (simp add: updateUserStatsAfterGame_def)
next
  case (passed lr db4 payload)
  show ?thesis unfolding passed(2)
    using addExperience_frame(1)[OF passed(1)] by (simp add: updateUserStatsAfterGame_def)
qed


lemma match_db_created:
  "createGameSession 1 (Some 2) 4 ''speed'' None (new_user 2 (new_user 1 empty_database)) = Some (1, match_db)"
  by (simp add: createGameSession_def new_user_def empty_database_def match_db_def match_session_def)

lemma level_loop_105: "level_loop 105 1 = (2, 5)"
  by (simp add: level_loop.simps)

lemma speed_category_4: "speed_category 4 = ''speed_4x4''"
  by code_simp

lemma elo_changes_equal:
  "elo_changes r r (actual_scores a b w) =
     (if w = Some a then (16, - 16) else if w = Some b then (- 16, 16) else (0, 0))"
  by (simp add: elo_changes_def elo_change_def expected_score_equal actual_scores_def
        k_factor_def mysql_round_def)


lemmas handler_defs =
  complete_game_def getGameSession_def updateGameSession_def winner_exists_def
  complete_updates_def complete_effects_def Let_def
  updateUserStatsAfterGame_def sp_update_user_stats_def update_ratings_def
  calculateAndUpdateELO_def sp_update_elo_def read_elo_def write_elo_def
  sp_update_user_stats_row_def update_board_size_stats_def update_mode_stats_def
  update_basic_stats_def xp_for_def addExperience_def
  achievements_and_leaderboard_def getUserStats_def checkMultipleAchievements_def
  updateAchievementProgress_def clamp_elo_def
  updateLeaderboardEntry_rejects upsert_entry_def is_entry_def shouldUpdate_def
  post_move_def recordMove_def

lemmas example_defs =
  match_db_def match_session_def moves_db_def moves_session_def winner_body_def other_body_def
  ghost_body_def abandoned_db_def
  completed_db_def ranked_db_def a_move_def new_user_def empty_database_def
  default_user_stats_def default_user_row_def

lemmas example_values = elo_changes_equal level_loop_105 speed_category_4

lemma complete_game_completed:
  assumes "game_sessions db sessionId = Some session" and "status session = ''completed''"
  shows "complete_game userId sessionId body db = (AlreadyCompleted, db)"
  using assms by (simp add: complete_game_def getGameSession_def)

lemma complete_game_status_after:
  assumes "game_sessions db sessionId = Some session"
    and "\<forall>w. winnerId body = Some w \<longrightarrow> users db w \<noteq> None"
  shows "\<exists>s'. game_sessions (snd (complete_game userId sessionId body db)) sessionId = Some s'
           \<and> status s' = ''completed''"
proof (cases "status session = ''completed''")
  case True
  then show ?thesis using assms(1) by (simp add: complete_game_completed)
next
  case False
  have w: "winner_exists db (complete_updates body)"
    using assms(2) by (auto simp: winner_exists_def complete_updates_def split: option.splits)
  let ?db1 = "db\<lparr>game_sessions := (game_sessions db)(sessionId \<mapsto>
                 apply_session_updates (complete_updates body) session)\<rparr>"
  have "complete_game userId sessionId body db = complete_effects userId body session ?db1"
    using assms(1) False w by (simp add: complete_game_def getGameSession_def updateGameSession_def)
  then have "game_sessions (snd (complete_game userId sessionId body db)) = game_sessions ?db1"
    by (simp add: complete_effects_sessions)
  then show ?thesis by (simp add: apply_session_updates_def complete_updates_def)
qed

text \<open>
  Claim C1, amended. For a session that exists: when its stored status is
  \<open>completed\<close>, the complete operation fails with the error \<open>Game already completed\<close>
  (HTTP 400) and leaves the whole store as it is, the session row, every statistics
  row, every rating and the leaderboard included. And when the winner named by a first
  call is null or an existing user, a second call on the same session, with the same or
  other arguments, always returns that error and changes nothing, whatever the outcome
  of the first call.
\<close>

theorem complete_rejects_completed:
  assumes "game_sessions db sessionId = Some session"
  shows "(status session = ''completed'' \<longrightarrow>
            complete_game userId sessionId body db = (AlreadyCompleted, db))
       \<and> ((\<forall>w. winnerId body = Some w \<longrightarrow> users db w \<noteq> None) \<longrightarrow>
            complete_game userId' sessionId body' (snd (complete_game userId sessionId body db))
              = (AlreadyCompleted, snd (complete_game userId sessionId body db)))"
proof (intro conjI impI)
  assume "status session = ''completed''"
  with assms show "complete_game userId sessionId body db = (AlreadyCompleted, db)"
    by (rule complete_game_completed)
next
  assume "\<forall>w. winnerId body = Some w \<longrightarrow> users db w \<noteq> None"
  with assms obtain s' where
    "game_sessions (snd (complete_game userId sessionId body db)) sessionId = Some s'"
    "status s' = ''completed''"
    using complete_game_status_after by blast
  then show "complete_game userId' sessionId body' (snd (complete_game userId sessionId body db))
              = (AlreadyCompleted, snd (complete_game userId sessionId body db))"
    by (rule complete_game_completed)
qed

lemma moves_db_first_call:
  "fst (complete_game 1 1 winner_body moves_db)
     = GameCompleted \<lparr>xpGained = 105, pl_leveledUp = True, pl_newLevel = 2,
                      eloChanges = Some (Some (16, - 16))\<rparr>"
  by (simp add: handler_defs example_defs example_values)

text \<open>
  The first user completes the match of \<open>moves_db\<close>; the second user's call on the
  same session is then refused and changes nothing. A call on a session stored as
  completed is refused likewise.
\<close>

theorem complete_rejects_completed_witness:
  "game_sessions moves_db 1 = Some moves_session
   \<and> winnerId winner_body = Some 1 \<and> users moves_db 1 \<noteq> None
   \<and> fst (complete_game 1 1 winner_body moves_db)
       = GameCompleted \<lparr>xpGained = 105, pl_leveledUp = True, pl_newLevel = 2,
                        eloChanges = Some (Some (16, - 16))\<rparr>
   \<and> complete_game 2 1 other_body (snd (complete_game 1 1 winner_body moves_db))
       = (AlreadyCompleted, snd (complete_game 1 1 winner_body moves_db))
   \<and> game_sessions completed_db 1 = Some (match_session\<lparr>status := ''completed''\<rparr>)
   \<and> complete_game 1 1 winner_body completed_db = (AlreadyCompleted, completed_db)"
proof -
  have a: "game_sessions moves_db 1 = Some moves_session" by (simp add: moves_db_def)
  have b: "winnerId winner_body = Some 1 \<and> users moves_db 1 \<noteq> None"
    by (simp add: winner_body_def moves_db_def match_db_def new_user_def)
  have c: "game_sessions completed_db 1 = Some (match_session\<lparr>status := ''completed''\<rparr>)"
    by (simp add: completed_db_def)
  show ?thesis
    using a b c moves_db_first_call
      complete_rejects_completed [OF a, of 1 winner_body 2 other_body]
      complete_rejects_completed [OF c, of 1 winner_body 1 winner_body]
    by simp
qed

text \<open>
  The claim as stated fails for the status \<open>abandoned\<close>: the guard compares with
  \<open>completed\<close> only, so the call succeeds and writes statistics and ratings.
\<close>

theorem complete_abandoned_counterexample:
  "map_option status (game_sessions abandoned_db 1) = Some ''abandoned''
   \<and> fst (complete_game 1 1 winner_body abandoned_db)
       = GameCompleted \<lparr>xpGained = 105, pl_leveledUp = True, pl_newLevel = 2,
                        eloChanges = Some (Some (16, - 16))\<rparr>
   \<and> map_option total_games (user_stats_tbl abandoned_db 1) = Some 0
   \<and> map_option total_games
        (user_stats_tbl (snd (complete_game 1 1 winner_body abandoned_db)) 1) = Some 1
   \<and> read_elo abandoned_db 1 = Some 1000
   \<and> read_elo (snd (complete_game 1 1 winner_body abandoned_db)) 1 = Some 1016"
  by (simp add: handler_defs example_defs example_values)

text \<open>
  A call that names a winner who is not a user fails on the foreign key of
  \<open>winner_id\<close> before anything is written.
\<close>

lemma unknown_winner_rejected:
  "complete_game 1 1 ghost_body moves_db = (ServerError, moves_db)"
  by (simp add: complete_game_def getGameSession_def updateGameSession_def
        winner_exists_def complete_updates_def example_defs)

text \<open>
  A session of the mode \<open>speed\<close>: the handler writes the session, the statistics, the
  ratings, the experience and the leaderboard row, then the recalculation of the ranks
  rejects and the handler answers with a server error. The new row keeps rank 0 and the
  opponent's row keeps its rank.
\<close>

lemma speed_completion:
  "fst (complete_game 1 1 winner_body ranked_db) = ServerError"
  "map_option status (game_sessions (snd (complete_game 1 1 winner_body ranked_db)) 1)
     = Some ''completed''"
  "read_elo (snd (complete_game 1 1 winner_body ranked_db)) 1 = Some 1016"
  "read_elo (snd (complete_game 1 1 winner_body ranked_db)) 2 = Some 984"
  "leaderboards (snd (complete_game 1 1 winner_body ranked_db))
     = [\<lparr>lb_user_id = 2, category = ''speed_4x4'', score = 50, lb_elo_rating = Some 1000,
         season = ''all_time'', rank_position = 1\<rparr>,
        \<lparr>lb_user_id = 1, category = ''speed_4x4'', score = 45, lb_elo_rating = Some 1016,
         season = ''all_time'', rank_position = 0\<rparr>]"
  by (simp_all add: handler_defs example_defs example_values apply_session_updates_def)

lemma updateGameSession_untouched:
  "updateGameSession sessionId upd db = Some db1 \<Longrightarrow> untouched_for u db db1"
  by (auto simp: updateGameSession_def untouched_for_def split: option.splits if_splits)

lemma untouched_for_refl: "untouched_for u db db"
  by (simp add: untouched_for_def)

lemma complete_game_untouched:
  assumes "u \<noteq> userId"
  shows "untouched_for u db (snd (complete_game userId sessionId body db))"
proof (cases "getGameSession db sessionId")
  case None
  then show ?thesis by (simp add: complete_game_def untouched_for_refl)
next
  case (Some session)
  show ?thesis
  proof (cases "status session = ''completed''")
    case True
    then show ?thesis using Some by (simp add: complete_game_def untouched_for_refl)
  next
    case False
    show ?thesis
    proof (cases "updateGameSession sessionId (complete_updates body) db")
      case None
      then show ?thesis using Some False by (simp add: complete_game_def untouched_for_refl)
    next
      case (Some db1)
      have "complete_game userId sessionId body db = complete_effects userId body session db1"
        using \<open>getGameSession db sessionId = Some session\<close> False Some
        by (simp add: complete_game_def)
      then show ?thesis
        using untouched_for_trans[OF updateGameSession_untouched[OF Some]
                complete_effects_untouched[OF assms]]
        by simp
    qed
  qed
qed

text \<open>
  Claim C10. The complete operation applies the statistics update, the experience
  award, the achievement checks and the leaderboard upsert for the authenticated caller
  only. Whatever its outcome, for every other user, the opponent included: the row in
  \<open>users\<close> (level and experience) and the achievement progress are unchanged, the
  statistics row is unchanged apart from \<open>elo_rating\<close>, and the leaderboard entries
  are unchanged.
\<close>

theorem complete_leaves_other_users:
  assumes "u \<noteq> userId"
    and "complete_game userId sessionId body db = (resp, db')"
  shows "users db' u = users db u
       \<and> (\<forall>k. user_achievements db' (u, k) = user_achievements db (u, k))
       \<and> map_option erase_elo (user_stats_tbl db' u) = map_option erase_elo (user_stats_tbl db u)
       \<and> filter (\<lambda>r. lb_user_id r = u) (leaderboards db')
           = filter (\<lambda>r. lb_user_id r = u) (leaderboards db)"
  using complete_game_untouched[OF assms(1), of db sessionId body] assms(2)
  by (simp add: untouched_for_def)

lemma moves_db_result:
  "read_elo moves_db 2 = Some 1000"
  "read_elo (snd (complete_game 1 1 winner_body moves_db)) 2 = Some 984"
  "map_option total_wins (user_stats_tbl (snd (complete_game 1 1 winner_body moves_db)) 1) = Some 1"
  by (simp_all add: handler_defs example_defs example_values)

text \<open>
  The first user completes the two-player match of \<open>moves_db\<close> with success: the
  opponent's rating goes from 1000 to 984, and the rest of the opponent's statistics
  row, the row in \<open>users\<close> and the leaderboard entry are as before.
\<close>

theorem complete_leaves_other_users_witness:
  "(2::nat) \<noteq> 1
   \<and> fst (complete_game 1 1 winner_body moves_db)
       = GameCompleted \<lparr>xpGained = 105, pl_leveledUp = True, pl_newLevel = 2,
                        eloChanges = Some (Some (16, - 16))\<rparr>
   \<and> read_elo moves_db 2 = Some 1000
   \<and> read_elo (snd (complete_game 1 1 winner_body moves_db)) 2 = Some 984
   \<and> map_option total_wins (user_stats_tbl (snd (complete_game 1 1 winner_body moves_db)) 1)
       = Some 1
   \<and> users (snd (complete_game 1 1 winner_body moves_db)) 2 = users moves_db 2
   \<and> map_option erase_elo (user_stats_tbl (snd (complete_game 1 1 winner_body moves_db)) 2)
       = map_option erase_elo (user_stats_tbl moves_db 2)
   \<and> filter (\<lambda>r. lb_user_id r = 2) (leaderboards (snd (complete_game 1 1 winner_body moves_db)))
       = filter (\<lambda>r. lb_user_id r = 2) (leaderboards moves_db)"
proof -
  have n: "(2::nat) \<noteq> 1" by simp
  show ?thesis
    using moves_db_first_call moves_db_result
      complete_leaves_other_users [where u = 2 and userId = 1 and sessionId = 1
        and body = winner_body and db = moves_db, OF n prod.collapse [symmetric]]
    by simp
qed

text \<open>
  Claim C8, amended. For every session that exists, whatever its status, and every
  existing user, \<open>recordMove\<close> appends the move to the move log, through the HTTP
  handler and through the socket handler alike, and the session rows, the status
  included, are never changed. A move is rejected only when the session or the user
  does not exist: the HTTP handler answers with a server error, the socket handler logs
  the error, and the store stays as it is.
\<close>

theorem move_recorded_in_any_status:
  "game_sessions (snd (post_move userId sessionId m db)) = game_sessions db
   \<and> (game_sessions db sessionId \<noteq> None \<and> users db userId \<noteq> None \<longrightarrow>
         post_move userId sessionId m db
           = (MoveRecorded, db\<lparr>game_moves := game_moves db @ [move_row sessionId userId m]\<rparr>)
         \<and> (sock_userId sock = userId \<and> store st = db \<longrightarrow>
               store (game_move sock sessionId m st)
                 = db\<lparr>game_moves := game_moves db @ [move_row sessionId userId m]\<rparr>))
   \<and> (game_sessions db sessionId = None \<or> users db userId = None \<longrightarrow>
         post_move userId sessionId m db = (ServerError, db)
         \<and> (sock_userId sock = userId \<and> store st = db \<longrightarrow>
               store (game_move sock sessionId m st) = db
               \<and> LogError ''Error recording move:'' \<in> set (effects (game_move sock sessionId m st))))"
  by (auto simp: recordMove_def post_move_def game_move_def Let_def)

text \<open>
  A move on the in-progress session 1 is recorded; a move on the unknown session 7 is
  answered with a server error and leaves the store as it is.
\<close>

theorem move_recorded_in_any_status_witness:
  "game_sessions match_db 1 = Some match_session \<and> users match_db 1 \<noteq> None
   \<and> post_move 1 1 a_move match_db
       = (MoveRecorded, match_db\<lparr>game_moves := [move_row 1 1 a_move]\<rparr>)
   \<and> game_sessions (snd (post_move 1 1 a_move match_db)) = game_sessions match_db
   \<and> game_sessions match_db 7 = None
   \<and> post_move 1 7 a_move match_db = (ServerError, match_db)"
proof -
  have a: "game_sessions match_db 1 = Some match_session" by (simp add: match_db_def)
  have b: "users match_db 1 \<noteq> None" by (simp add: match_db_def new_user_def)
  have c: "game_moves match_db = []" by (simp add: match_db_def new_user_def empty_database_def)
  have d: "game_sessions match_db 7 = None" by (simp add: match_db_def)
  show ?thesis
    using a b c d
      move_recorded_in_any_status [of 1 1 a_move match_db]
      move_recorded_in_any_status [of 1 7 a_move match_db]
    by simp
qed

text \<open>
  The claim as stated fails for a session that is not in progress: a move sent to a
  completed session is recorded.
\<close>

theorem move_on_completed_counterexample:
  "map_option status (game_sessions completed_db 1) = Some ''completed''
   \<and> ''completed'' \<noteq> ''in_progress''
   \<and> game_moves completed_db = []
   \<and> fst (post_move 1 1 a_move completed_db) = MoveRecorded
   \<and> game_moves (snd (post_move 1 1 a_move completed_db)) = [move_row 1 1 a_move]"
  by (simp add: post_move_def recordMove_def example_defs)



section \<open>Properties of the socket handlers\<close>

lemma findIndex_None: "findIndex P xs = None \<longleftrightarrow> (\<forall>x \<in> set xs. \<not> P x)"
  by (induction xs) auto

lemma findIndex_Some:
  "findIndex P xs = Some i \<Longrightarrow> i < length xs \<and> P (xs ! i) \<and> (\<forall>j < i. \<not> P (xs ! j))"
proof (induction xs arbitrary: i)
  case Nil
  then show ?case by simp
next
  case (Cons x xs)
  show ?case
  proof (cases "P x")
    case True
    then show ?thesis using Cons.prems by auto
  next
    case False
    then obtain i' where i': "findIndex P xs = Some i'" "i = Suc i'"
      using Cons.prems by auto
    from Cons.IH[OF i'(1)] False i'(2) show ?thesis
      by (auto simp: less_Suc_eq_0_disj)
  qed
qed

lemma join_no_match:
  assumes "getUserStats (store st) (sock_userId sock) = Some userStats"
    and "queue_of st mode = Some queue"
    and "findIndex (suitable boardSize (elo_rating userStats)) queue = None"
  shows "join_matchmaking sock mode boardSize st =
    (Queued (length queue + 1),
     st\<lparr>matchmakingQueue := (matchmakingQueue st)(mode \<mapsto> queue @
            [\<lparr>wp_userId = sock_userId sock, wp_username = sock_username sock, wp_socket = sock,
              wp_boardSize = boardSize, wp_elo = elo_rating userStats\<rparr>]),
        effects := effects st @
            [Emit (ToSocket (sock_id sock))
               (MatchmakingJoined (length queue + 1) mode boardSize)]\<rparr>)"
  using assms by (simp add: join_matchmaking_def Let_def)

lemma createGameSession_pair:
  assumes "users db p1 \<noteq> None" and "users db p2 \<noteq> None"
  shows "createGameSession p1 (Some p2) boardSize mode None db =
    Some (next_session_id db,
      db\<lparr>game_sessions := (game_sessions db)(next_session_id db \<mapsto>
            \<lparr>player1_id = p1, player2_id = Some p2, winner_id = None,
             board_size = boardSize, game_mode = mode, puzzle_config_id = None,
             status = ''in_progress'', completion_time = None, move_count = 0,
             perfect_game = False, speed_bonus = False, completed_at = False\<rparr>),
          next_session_id := next_session_id db + 1\<rparr>)"
  using assms by (auto simp: createGameSession_def Let_def)

lemma join_match:
  assumes "getUserStats (store st) (sock_userId sock) = Some userStats"
    and "queue_of st mode = Some queue"
    and "findIndex (suitable boardSize (elo_rating userStats)) queue = Some i"
    and "users (store st) (sock_userId sock) \<noteq> None"
    and "users (store st) (wp_userId (queue ! i)) \<noteq> None"
  shows "fst (join_matchmaking sock mode boardSize st) = Matched (next_session_id (store st))"
    and "matchmakingQueue (snd (join_matchmaking sock mode boardSize st)) mode
           = Some (splice1 i queue)"
    and "game_sessions (store (snd (join_matchmaking sock mode boardSize st)))
           (next_session_id (store st))
         = Some \<lparr>player1_id = sock_userId sock,
                 player2_id = Some (wp_userId (queue ! i)), winner_id = None,
                 board_size = boardSize, game_mode = mode, puzzle_config_id = None,
                 status = ''in_progress'', completion_time = None, move_count = 0,
                 perfect_game = False, speed_bonus = False, completed_at = False\<rparr>"
    and "Emit (ToRoom (room_of (next_session_id (store st))))
           (MatchFound (next_session_id (store st)) boardSize mode
              (sock_userId sock, sock_username sock)
              (wp_userId (queue ! i), wp_username (queue ! i)))
         \<in> set (effects (snd (join_matchmaking sock mode boardSize st)))"
  using assms(1,2,3) createGameSession_pair[OF assms(4,5), of boardSize mode]
  by (simp_all add: join_matchmaking_def Let_def)

text \<open>
  Claim C2. A user with a statistics row joins the queue of a mode with a board size;
  the mode is a key of the queue object or at least not a key the object inherits, so
  that the waiting list is an array, and the joiner and the queued users have rows in
  \<open>users\<close>. If the waiting list of the mode holds an entry with the same board size
  whose rating differs from the joiner's by at most 200, the first such entry is
  removed, a session pairing the joiner with that player is created in progress, and
  the match is announced to both. Otherwise the joiner is appended and told the queue
  position, the new length of the list.
\<close>

theorem join_matchmaking_first_suitable:
  assumes "getUserStats (store st) (sock_userId sock) = Some userStats"
    and "queue_of st mode = Some queue"
    and "users (store st) (sock_userId sock) \<noteq> None"
    and "\<forall>p \<in> set queue. users (store st) (wp_userId p) \<noteq> None"
  shows
    "(case findIndex (suitable boardSize (elo_rating userStats)) queue of
        None \<Rightarrow>
          (\<forall>p \<in> set queue. \<not> suitable boardSize (elo_rating userStats) p)
          \<and> join_matchmaking sock mode boardSize st =
              (Queued (length queue + 1),
               st\<lparr>matchmakingQueue := (matchmakingQueue st)(mode \<mapsto> queue @
                      [\<lparr>wp_userId = sock_userId sock, wp_username = sock_username sock,
                        wp_socket = sock, wp_boardSize = boardSize,
                        wp_elo = elo_rating userStats\<rparr>]),
                  effects := effects st @
                      [Emit (ToSocket (sock_id sock))
                         (MatchmakingJoined (length queue + 1) mode boardSize)]\<rparr>)
      | Some i \<Rightarrow>
          i < length queue
          \<and> suitable boardSize (elo_rating userStats) (queue ! i)
          \<and> (\<forall>j < i. \<not> suitable boardSize (elo_rating userStats) (queue ! j))
          \<and> fst (join_matchmaking sock mode boardSize st) = Matched (next_session_id (store st))
          \<and> matchmakingQueue (snd (join_matchmaking sock mode boardSize st)) mode
                = Some (splice1 i queue)
          \<and> game_sessions (store (snd (join_matchmaking sock mode boardSize st)))
                (next_session_id (store st))
              = Some \<lparr>player1_id = sock_userId sock,
                      player2_id = Some (wp_userId (queue ! i)), winner_id = None,
                      board_size = boardSize, game_mode = mode, puzzle_config_id = None,
                      status = ''in_progress'', completion_time = None, move_count = 0,
                      perfect_game = False, speed_bonus = False, completed_at = False\<rparr>
          \<and> Emit (ToRoom (room_of (next_session_id (store st))))
                (MatchFound (next_session_id (store st)) boardSize mode
                   (sock_userId sock, sock_username sock)
                   (wp_userId (queue ! i), wp_username (queue ! i)))
              \<in> set (effects (snd (join_matchmaking sock mode boardSize st))))"
proof (cases "findIndex (suitable boardSize (elo_rating userStats)) queue")
  case None
  have a: "\<forall>p \<in> set queue. \<not> suitable boardSize (elo_rating userStats) p"
    using None by (simp add: findIndex_None)
  show ?thesis
    by (simp only: None option.case, intro conjI a join_no_match[OF assms(1,2) None])
next
  case (Some i)
  note f = findIndex_Some[OF Some]
  from f assms(4) have u: "users (store st) (wp_userId (queue ! i)) \<noteq> None"
    by simp
  show ?thesis
    using f by (simp only: Some option.case, intro conjI join_match[OF assms(1,2) Some assms(3) u])
      simp_all
qed

lemma suitable_ratings:
  "suitable boardSize (Some r) p \<longleftrightarrow>
     wp_boardSize p = boardSize \<and> \<bar>js_number (wp_elo p) - r\<bar> \<le> 200"
  by (simp add: suitable_def js_number_def)

text \<open>
  A mode that the queue object inherits and does not hold itself: the handler throws
  and the server is as before.
\<close>

lemma join_inherited_key:
  "join_matchmaking sockA ''constructor'' 4 fresh_server = (Threw, fresh_server)"
  by (simp add: join_matchmaking_def queue_of_def inherited_keys_def fresh_server_def
        initial_queues_def getUserStats_def three_users_def sockA_def)

lemmas server_defs =
  after_A_def after_B_def fresh_server_def three_users_def sockA_def sockB_def sockC_def
  initial_queues_def new_user_def empty_database_def default_user_stats_def
  default_user_row_def join_matchmaking_def queue_of_def getUserStats_def suitable_def
  js_number_def Let_def createGameSession_def splice1_def room_of_def

lemma after_A_queue:
  "fst (join_matchmaking sockA ''speed'' 4 fresh_server) = Queued 1"
  "map_option (map wp_userId) (queue_of after_A ''speed'') = Some [1]"
  "store after_A = three_users"
  by (simp_all add: server_defs)

lemma after_B_queue:
  "fst (join_matchmaking sockB ''speed'' 4 after_A) = Queued 2"
  "map_option (map (\<lambda>p. (wp_userId p, wp_elo p))) (queue_of after_B ''speed'')
     = Some [(1, Some 1000), (2, Some 1350)]"
  "store after_B = three_users"
  "activeGames after_B = []"
  by (simp_all add: server_defs)

lemma after_C:
  "fst (join_matchmaking sockC ''speed'' 4 after_B) = Matched 1"
  "map_option (map wp_userId)
     (queue_of (snd (join_matchmaking sockC ''speed'' 4 after_B)) ''speed'') = Some [2]"
  "map_option (\<lambda>s. (player1_id s, player2_id s))
     (game_sessions (store (snd (join_matchmaking sockC ''speed'' 4 after_B))) 1)
     = Some (3, Some 1)"
  by (simp_all add: server_defs)

text \<open>
  User A (rated 1000) and then user B (rated 1350) join the speed queue for board size
  4: the gap of 350 makes no match, both are queued at positions 1 and 2 and no session
  exists. User C (rated 1100) then joins and is matched with A, the first entry within
  200, and B stays queued.
\<close>

theorem join_matchmaking_first_suitable_witness:
  "getUserStats (store after_A) (sock_userId sockB)
     = Some (default_user_stats\<lparr>elo_rating := Some 1350\<rparr>)
   \<and> map_option (map wp_userId) (queue_of after_A ''speed'') = Some [1]
   \<and> users (store after_A) (sock_userId sockB) \<noteq> None
   \<and> users (store after_A) 1 \<noteq> None
   \<and> fst (join_matchmaking sockA ''speed'' 4 fresh_server) = Queued 1
   \<and> fst (join_matchmaking sockB ''speed'' 4 after_A) = Queued 2
   \<and> map_option (map (\<lambda>p. (wp_userId p, wp_elo p))) (queue_of after_B ''speed'')
       = Some [(1, Some 1000), (2, Some 1350)]
   \<and> game_sessions (store after_B) = Map.empty
   \<and> activeGames after_B = []
   \<and> fst (join_matchmaking sockC ''speed'' 4 after_B) = Matched 1
   \<and> map_option (map wp_userId)
        (queue_of (snd (join_matchmaking sockC ''speed'' 4 after_B)) ''speed'') = Some [2]"
proof -
  let ?qA = "[\<lparr>wp_userId = 1, wp_username = ''userA'', wp_socket = sockA,
               wp_boardSize = 4, wp_elo = Some 1000\<rparr>]"
  let ?qB = "?qA @ [\<lparr>wp_userId = 2, wp_username = ''userB'', wp_socket = sockB,
               wp_boardSize = 4, wp_elo = Some 1350\<rparr>]"
  have a: "getUserStats (store after_A) (sock_userId sockB)
     = Some (default_user_stats\<lparr>elo_rating := Some 1350\<rparr>)"
    by (simp add: server_defs)
  have q: "queue_of after_A ''speed'' = Some ?qA"
    by (simp add: server_defs)
  have b: "users (store after_A) (sock_userId sockB) \<noteq> None"
    by (simp add: server_defs)
  have c: "\<forall>p \<in> set ?qA. users (store after_A) (wp_userId p) \<noteq> None"
    by (simp add: server_defs)
  have d: "findIndex (suitable 4 (elo_rating (default_user_stats\<lparr>elo_rating := Some 1350\<rparr>)))
             ?qA = None"
    by (simp add: suitable_def js_number_def)
  have e: "fst (join_matchmaking sockB ''speed'' 4 after_A) = Queued 2"
    using join_matchmaking_first_suitable [OF a q b c, of 4]
    by (simp only: d option.case) simp
  have a3: "getUserStats (store after_B) (sock_userId sockC)
     = Some (default_user_stats\<lparr>elo_rating := Some 1100\<rparr>)"
    by (simp add: server_defs)
  have q3: "queue_of after_B ''speed'' = Some ?qB"
    by (simp add: server_defs)
  have b3: "users (store after_B) (sock_userId sockC) \<noteq> None"
    by (simp add: server_defs)
  have c3: "\<forall>p \<in> set ?qB. users (store after_B) (wp_userId p) \<noteq> None"
    by (simp add: server_defs)
  have d3: "findIndex (suitable 4 (elo_rating (default_user_stats\<lparr>elo_rating := Some 1100\<rparr>)))
             ?qB = Some 0"
    by (simp add: suitable_def js_number_def)
  have n3: "next_session_id (store after_B) = 1"
    by (simp add: server_defs)
  have e3: "fst (join_matchmaking sockC ''speed'' 4 after_B) = Matched 1"
    using join_matchmaking_first_suitable [OF a3 q3 b3 c3, of 4]
    by (simp only: d3 option.case n3)
  have u1: "users (store after_A) 1 \<noteq> None" by (simp add: server_defs)
  have qa: "map_option (map wp_userId) (queue_of after_A ''speed'') = Some [1]"
    by (simp add: q)
  have gs: "game_sessions (store after_B) = Map.empty"
    using after_B_queue(3) by (simp add: three_users_def new_user_def empty_database_def)
  show ?thesis
    using a qa b u1 e e3 after_A_queue(1) after_B_queue(2,4) gs after_C(2)
    by (intro conjI)
qed

lemma room_of_1: "room_of 1 = ''game_1''"
  by code_simp

text \<open>
  Claim C7, amended. When a socket disconnects, every active game in which its user
  plays is announced to the game's room, the leaving socket excepted, with
  \<open>opponent_disconnected\<close>, and is deleted from the active games; the store is not
  written at all: no rating and no statistics row changes for either participant, and
  the stored session keeps its status.
\<close>

theorem disconnect_notifies_without_write:
  "store (disconnect sock st) = store st
   \<and> (\<forall>g \<in> set (activeGames st). plays_in (sock_userId sock) (snd g) \<longrightarrow>
         Emit (ToRoomExcept (room_of (fst g)) (sock_id sock)) OpponentDisconnected
           \<in> set (effects (disconnect sock st))
         \<and> g \<notin> set (activeGames (disconnect sock st)))"
  by (auto simp: disconnect_def image_iff split: prod.splits)

theorem disconnect_notifies_without_write_witness:
  "map (\<lambda>g. (fst g, plays_in (sock_userId sockA) (snd g))) (activeGames playing_server)
     = [(1, True)]
   \<and> store (disconnect sockA playing_server) = store playing_server
   \<and> effects (disconnect sockA playing_server)
       = [Emit (ToRoomExcept ''game_1'' 11) OpponentDisconnected]
   \<and> activeGames (disconnect sockA playing_server) = []"
proof -
  have a: "\<forall>g \<in> set (activeGames playing_server). plays_in (sock_userId sockA) (snd g)"
    by (simp add: playing_server_def plays_in_def sockA_def)
  have b: "effects (disconnect sockA playing_server)
       = [Emit (ToRoomExcept ''game_1'' 11) OpponentDisconnected]"
    using room_of_1 by (simp add: disconnect_def playing_server_def plays_in_def sockA_def)
  have c: "activeGames playing_server \<noteq> []" by (simp add: playing_server_def)
  have d: "activeGames (disconnect sockA playing_server) = []"
    using a c disconnect_notifies_without_write [of sockA playing_server]
    by (cases "activeGames (disconnect sockA playing_server)")
       (auto simp: disconnect_def dest: filter_eq_ConsD)
  have e: "map (\<lambda>g. (fst g, plays_in (sock_userId sockA) (snd g))) (activeGames playing_server)
     = [(1, True)]"
    by (simp add: playing_server_def plays_in_def sockA_def)
  show ?thesis
    using b d e disconnect_notifies_without_write [of sockA playing_server] by simp
qed

text \<open>
  The claim as stated fails on the stored status: after the disconnect of a player of
  the in-progress session 1 the stored status is still \<open>in_progress\<close>.
\<close>

theorem disconnect_status_counterexample:
  "map_option status (game_sessions (store playing_server) 1) = Some ''in_progress''
   \<and> (\<exists>g \<in> set (activeGames playing_server). fst g = 1 \<and> plays_in (sock_userId sockA) (snd g))
   \<and> map_option status (game_sessions (store (disconnect sockA playing_server)) 1)
       = Some ''in_progress''
   \<and> ''in_progress'' \<noteq> ''abandoned''"
  by (simp add: disconnect_def playing_server_def match_db_def match_session_def
        plays_in_def sockA_def)



end
